theory Spec2Isabelle
  imports Complex_Main "HOL-Library.Monad_Syntax" "HOL-Library.Multiset"
begin

section \<open>Python values\<close>

text \<open>
  The scripts pass untyped nested dictionaries around. A value is one of Python's
  built-in kinds; a dictionary keeps its insertion order, so it is an association list
  (a well-formed one has distinct keys). Floats are read as exact real numbers. A
  string is a list of characters.

  A raised exception (KeyError, TypeError, AttributeError) is the value \<open>None\<close> of the
  option type; a normal return is \<open>Some\<close>.
\<close>

datatype pyval =
    PNone
  | PBool bool
  | PInt int
  | PFloat real
  | PStr string
  | PList "pyval list"
  | PTuple "pyval list"
  | PDict "(string \<times> pyval) list"

type_synonym pydict = "(string \<times> pyval) list"

text \<open>\<^verbatim>\<open>d.get(k, default)\<close> on a dictionary.\<close>

definition dict_get :: "pydict \<Rightarrow> string \<Rightarrow> pyval \<Rightarrow> pyval" where
  "dict_get d k dflt = (case map_of d k of None \<Rightarrow> dflt | Some v \<Rightarrow> v)"

text \<open>\<^verbatim>\<open>k in d\<close> on a dictionary.\<close>

definition dict_has :: "pydict \<Rightarrow> string \<Rightarrow> bool" where
  "dict_has d k = (map_of d k \<noteq> None)"

text \<open>
  \<^verbatim>\<open>d[k] = v\<close>: an existing key keeps its position and takes the new value, a new key
  goes to the end.
\<close>

fun dict_set :: "(string \<times> 'v) list \<Rightarrow> string \<Rightarrow> 'v \<Rightarrow> (string \<times> 'v) list" where
  "dict_set [] k v = [(k, v)]"
| "dict_set ((k', v') # d) k v =
     (if k' = k then (k, v) # d else (k', v') # dict_set d k v)"

text \<open>\<^verbatim>\<open>v.get(k, default)\<close> on any value: only a dictionary has the method.\<close>

fun py_get :: "pyval \<Rightarrow> string \<Rightarrow> pyval \<Rightarrow> pyval option" where
  "py_get (PDict d) k dflt = Some (dict_get d k dflt)"
| "py_get _ k dflt = None"

text \<open>\<^verbatim>\<open>v[k]\<close> with a string key: a KeyError or a TypeError is \<open>None\<close>.\<close>

fun py_getitem :: "pyval \<Rightarrow> string \<Rightarrow> pyval option" where
  "py_getitem (PDict d) k = map_of d k"
| "py_getitem _ k = None"

fun starts_with :: "string \<Rightarrow> string \<Rightarrow> bool" where
  "starts_with [] s = True"
| "starts_with (a # p) [] = False"
| "starts_with (a # p) (b # s) = (a = b \<and> starts_with p s)"

fun is_substr :: "string \<Rightarrow> string \<Rightarrow> bool" where
  "is_substr p [] = (p = [])"
| "is_substr p (b # s) = (starts_with p (b # s) \<or> is_substr p s)"

text \<open>
  \<^verbatim>\<open>k in v\<close> with a string \<open>k\<close>: key membership for a dictionary, element membership for
  a list or tuple, substring test for a string, TypeError for the rest.
\<close>

fun py_in :: "string \<Rightarrow> pyval \<Rightarrow> bool option" where
  "py_in k (PDict d) = Some (dict_has d k)"
| "py_in k (PList xs) = Some (PStr k \<in> set xs)"
| "py_in k (PTuple xs) = Some (PStr k \<in> set xs)"
| "py_in k (PStr s) = Some (is_substr k s)"
| "py_in k _ = None"

text \<open>
  \<^verbatim>\<open>str.strip()\<close> removes whitespace at both ends. Among the code points below 256
  Python counts these as whitespace: 9 to 13, 28 to 32, 133 and 160.
\<close>

definition is_space :: "char \<Rightarrow> bool" where
  "is_space c = (of_char c \<in> set [9, 10, 11, 12, 13, 28, 29, 30, 31, 32, 133, 160 :: nat])"

definition strip :: "string \<Rightarrow> string" where
  "strip s = rev (dropWhile is_space (rev (dropWhile is_space s)))"

text \<open>\<^verbatim>\<open>v.strip()\<close> on any value: only a string has the method.\<close>

fun py_strip :: "pyval \<Rightarrow> string option" where
  "py_strip (PStr s) = Some (strip s)"
| "py_strip _ = None"

text \<open>The truth value of a value, as an \<^verbatim>\<open>if\<close> reads it.\<close>

fun py_truthy :: "pyval \<Rightarrow> bool" where
  "py_truthy PNone = False"
| "py_truthy (PBool b) = b"
| "py_truthy (PInt i) = (i \<noteq> 0)"
| "py_truthy (PFloat x) = (x \<noteq> 0)"
| "py_truthy (PStr s) = (s \<noteq> [])"
| "py_truthy (PList xs) = (xs \<noteq> [])"
| "py_truthy (PTuple xs) = (xs \<noteq> [])"
| "py_truthy (PDict d) = (d \<noteq> [])"

text \<open>
  \<^verbatim>\<open>v[0]\<close>: the first element of a list or tuple, the first character of a string.
  An empty sequence raises IndexError, a dictionary (its keys are strings) KeyError,
  any other value TypeError.
\<close>

fun py_first :: "pyval \<Rightarrow> pyval option" where
  "py_first (PList (x # xs)) = Some x"
| "py_first (PTuple (x # xs)) = Some x"
| "py_first (PStr (ch # s)) = Some (PStr [ch])"
| "py_first _ = None"

text \<open>\<^verbatim>\<open>len(v)\<close>\<close>

fun py_len :: "pyval \<Rightarrow> nat option" where
  "py_len (PStr s) = Some (length s)"
| "py_len (PList xs) = Some (length xs)"
| "py_len (PTuple xs) = Some (length xs)"
| "py_len (PDict d) = Some (length d)"
| "py_len _ = None"

text \<open>\<^verbatim>\<open>s.replace('.', new)\<close>: every dot of \<open>s\<close> becomes \<open>new\<close>.\<close>

definition replace_dots :: "string \<Rightarrow> string \<Rightarrow> string" where
  "replace_dots new s = concat (map (\<lambda>ch. if ch = CHR ''.'' then new else [ch]) s)"


section \<open>The result combiner of the OCR pipeline script\<close>

text \<open>
  \<^verbatim>\<open>ComprehensiveEngineeringOCR.combine_results\<close> of
  \<^verbatim>\<open>scripts/comprehensive_ocr_pipeline.py\<close>. The dictionary \<open>combined\<close> it builds has
  five fixed keys, so it is a record.
\<close>

record combined =
  all_text :: "pydict list"
  shapes_detected :: pyval
  lines_detected :: pyval
  confidence_scores :: pydict
  method_summary :: "(string \<times> pydict) list"

definition empty_combined :: combined where
  "empty_combined =
     \<lparr>all_text = [], shapes_detected = PList [], lines_detected = PList [],
      confidence_scores = [], method_summary = []\<rparr>"

definition text_item :: "string \<Rightarrow> string \<Rightarrow> string \<Rightarrow> pydict" where
  "text_item m t ty = [(''method'', PStr m), (''text'', PStr t), (''type'', PStr ty)]"

text \<open>
  The guarded append shared by the three text branches:
  \<^verbatim>\<open>if key in result and result[key].strip(): combined['all_text'].append({...})\<close>.
\<close>

definition append_text :: "combined \<Rightarrow> pydict \<Rightarrow> string \<Rightarrow> string \<Rightarrow> string \<Rightarrow> combined option" where
  "append_text c result key m ty =
     (case map_of result key of
        None \<Rightarrow> Some c
      | Some v \<Rightarrow> do {
          t \<leftarrow> py_strip v;
          Some (if t \<noteq> [] then c\<lparr>all_text := all_text c @ [text_item m t ty]\<rparr> else c)
        })"

text \<open>
  The guarded assignment of the yolo branch:
  \<^verbatim>\<open>if key in result and key in result[key]: combined[field] = result[key][key]\<close>.
  It returns the new value of the field.
\<close>

definition nested_or_old :: "pydict \<Rightarrow> string \<Rightarrow> pyval \<Rightarrow> pyval option" where
  "nested_or_old result key old =
     (case map_of result key of
        None \<Rightarrow> Some old
      | Some v \<Rightarrow> do {
          b \<leftarrow> py_in key v;
          if b then py_getitem v key else Some old
        })"

text \<open>The four branches of the loop body, one per recognised method name.\<close>

definition tesseract_branch :: "combined \<Rightarrow> pydict \<Rightarrow> combined option" where
  "tesseract_branch c result = do {
     c1 \<leftarrow> append_text c result ''extracted_text'' ''tesseract'' ''printed'';
     Some (c1\<lparr>method_summary := dict_set (method_summary c1) ''tesseract''
       [(''detections'', dict_get result ''total_detections'' (PInt 0)),
        (''type'', PStr ''printed_text'')]\<rparr>)
   }"

definition trocr_branch :: "combined \<Rightarrow> pydict \<Rightarrow> combined option" where
  "trocr_branch c result = do {
     c1 \<leftarrow> append_text c result ''text'' ''trocr'' ''handwritten'';
     t \<leftarrow> py_strip (dict_get result ''text'' (PStr []));
     Some (c1\<lparr>method_summary := dict_set (method_summary c1) ''trocr''
       [(''text_found'', PBool (t \<noteq> [])),
        (''type'', PStr ''handwritten_text'')]\<rparr>)
   }"

definition google_vision_branch :: "combined \<Rightarrow> pydict \<Rightarrow> combined option" where
  "google_vision_branch c result = do {
     c1 \<leftarrow> append_text c result ''text'' ''google_vision'' ''mixed'';
     Some (c1\<lparr>method_summary := dict_set (method_summary c1) ''google_vision''
       [(''detections'', dict_get result ''total_detections'' (PInt 0)),
        (''type'', PStr ''mixed_text'')]\<rparr>)
   }"

definition yolo_branch :: "combined \<Rightarrow> pydict \<Rightarrow> combined option" where
  "yolo_branch c result = do {
     sh \<leftarrow> nested_or_old result ''shapes'' (shapes_detected c);
     ln \<leftarrow> nested_or_old result ''lines'' (lines_detected c);
     n_shapes \<leftarrow> py_get (dict_get result ''shapes'' (PDict [])) ''total_shapes'' (PInt 0);
     n_lines \<leftarrow> py_get (dict_get result ''lines'' (PDict [])) ''total_lines'' (PInt 0);
     n_objects \<leftarrow> py_get (dict_get result ''yolo'' (PDict [])) ''total_detections'' (PInt 0);
     Some (c\<lparr>shapes_detected := sh, lines_detected := ln,
              method_summary := dict_set (method_summary c) ''yolo''
                [(''shapes'', n_shapes), (''lines'', n_lines), (''objects'', n_objects),
                 (''type'', PStr ''visual_elements'')]\<rparr>)
   }"

text \<open>
  One iteration of the loop over \<^verbatim>\<open>method_results.items()\<close>: the \<^verbatim>\<open>if\<close>/\<^verbatim>\<open>elif\<close>
  chain on the method name has no \<^verbatim>\<open>else\<close>, so any other name leaves \<open>combined\<close> as it
  is.
\<close>

fun combine_step :: "combined \<Rightarrow> string \<times> pydict \<Rightarrow> combined option" where
  "combine_step c (method, result) =
     (if method = ''tesseract'' then tesseract_branch c result
      else if method = ''trocr'' then trocr_branch c result
      else if method = ''google_vision'' then google_vision_branch c result
      else if method = ''yolo'' then yolo_branch c result
      else Some c)"

fun combine_loop :: "combined \<Rightarrow> (string \<times> pydict) list \<Rightarrow> combined option" where
  "combine_loop c [] = Some c"
| "combine_loop c (e # es) =
     (case combine_step c e of None \<Rightarrow> None | Some c' \<Rightarrow> combine_loop c' es)"

definition combine_results :: "(string \<times> pydict) list \<Rightarrow> combined option" where
  "combine_results method_results = combine_loop empty_combined method_results"


text \<open>
  The method names the \<^verbatim>\<open>if\<close>/\<^verbatim>\<open>elif\<close> chain tests for, and the text items one entry
  of the input adds when it is combined on its own.
\<close>

definition known_methods :: "string list" where
  "known_methods = [''tesseract'', ''trocr'', ''google_vision'', ''yolo'']"

definition text_contribution :: "string \<times> pydict \<Rightarrow> pydict list" where
  "text_contribution e = (case combine_results [e] of None \<Rightarrow> [] | Some d \<Rightarrow> all_text d)"

text \<open>The summary entry one entry of the input gets when it is combined on its own.\<close>

definition summary_of :: "string \<times> pydict \<Rightarrow> pydict option" where
  "summary_of e =
     (case combine_results [e] of None \<Rightarrow> None | Some d \<Rightarrow> map_of (method_summary d) (fst e))"


section \<open>The caller of the combiner\<close>

text \<open>
  \<^verbatim>\<open>ComprehensiveEngineeringOCR.analyze_with_google_vision\<close>. The HTTP request is
  external: \<open>response\<close> is the decoded JSON body, or \<open>None\<close> when reading the image, the
  request or the decoding raised. \<open>text_detection\<close> is the part of the \<^verbatim>\<open>try\<close> block that
  reads the body; the \<^verbatim>\<open>except\<close> clause turns every exception into an error result,
  whose message ends with the text \<open>e\<close> of the exception.
\<close>

definition no_text_detected :: pydict where
  "no_text_detected = [(''error'', PStr ''No text detected by Google Vision'')]"

definition text_detection :: "pyval \<Rightarrow> pydict option" where
  "text_detection result = do {
     has \<leftarrow> py_in ''responses'' result;
     if has then do {
       responses \<leftarrow> py_getitem result ''responses'';
       if py_truthy responses then do {
         first \<leftarrow> py_first responses;
         text_annotations \<leftarrow> py_get first ''textAnnotations'' (PList []);
         if py_truthy text_annotations then do {
           annotation \<leftarrow> py_first text_annotations;
           full_text \<leftarrow> py_getitem annotation ''description'';
           n \<leftarrow> py_len text_annotations;
           Some [(''text'', full_text),
                 (''method'', PStr ''Google Cloud Vision''),
                 (''confidence'', PStr ''High''),
                 (''total_detections'', PInt (int n - 1))]
         } else Some no_text_detected
       } else Some no_text_detected
     } else Some no_text_detected
   }"

definition analyze_with_google_vision :: "bool \<Rightarrow> pyval option \<Rightarrow> string \<Rightarrow> pydict" where
  "analyze_with_google_vision use_gv response e =
     (if \<not> use_gv then [(''error'', PStr ''Google Vision not configured'')]
      else case Option.bind response text_detection of
             Some d \<Rightarrow> d
           | None \<Rightarrow> [(''error'', PStr (''Google Vision API error: '' @ e))])"

text \<open>
  \<^verbatim>\<open>ComprehensiveEngineeringOCR.comprehensive_analysis\<close> runs the engines in a fixed
  order and stores a result under its method name only when the result has no
  \<^verbatim>\<open>'error'\<close> key; then it combines what it stored. The engines are external, so their
  results are the input here. With \<^verbatim>\<open>save_results\<close> (the default) it then writes the
  results as JSON to the file named \<^verbatim>\<open>image_path.replace('.', '_analysis_results.json')\<close>;
  \<open>writable\<close> is the set of paths that can be opened for writing, and opening any other
  path raises.
\<close>

definition results_file :: "string \<Rightarrow> string" where
  "results_file path = replace_dots ''_analysis_results.json'' path"

record engines =
  image_exists :: bool
  tesseract_result :: pydict
  trocr_loaded :: bool
  handwriting_result :: pydict
  yolo_loaded :: bool
  symbol_result :: pydict
  use_google_vision :: bool
  gv_result :: pydict
  writable :: "string set"

record analysis =
  methods_used :: "string list"
  results :: "(string \<times> pydict) list"
  combined_result :: combined

datatype analysis_return = File_not_found | Analysed analysis

text \<open>
  \<^verbatim>\<open>if 'error' not in result: methods_used.append(name); results[name] = result\<close>
\<close>

definition store_result ::
  "string \<Rightarrow> pydict \<Rightarrow> string list \<times> (string \<times> pydict) list \<Rightarrow>
   string list \<times> (string \<times> pydict) list" where
  "store_result name result st =
     (if \<not> dict_has result ''error'' then (fst st @ [name], dict_set (snd st) name result)
      else st)"

text \<open>The three counts the yolo step reads for its progress line; a read can raise.\<close>

definition yolo_counts :: "pydict \<Rightarrow> (pyval \<times> pyval \<times> pyval) option" where
  "yolo_counts res = do {
     shapes \<leftarrow> py_get (dict_get res ''shapes'' (PDict [])) ''total_shapes'' (PInt 0);
     lines \<leftarrow> py_get (dict_get res ''lines'' (PDict [])) ''total_lines'' (PInt 0);
     objects \<leftarrow> py_get (dict_get res ''yolo'' (PDict [])) ''total_detections'' (PInt 0);
     Some (shapes, lines, objects)
   }"

definition stored_results :: "engines \<Rightarrow> (string list \<times> (string \<times> pydict) list) option" where
  "stored_results env = do {
     let st1 = store_result ''tesseract'' (tesseract_result env) ([], []);
     let st2 = (if trocr_loaded env then store_result ''trocr'' (handwriting_result env) st1
                else st1);
     st3 \<leftarrow> (if yolo_loaded env \<and> \<not> dict_has (symbol_result env) ''error''
             then do {
               _ \<leftarrow> yolo_counts (symbol_result env);
               Some (store_result ''yolo'' (symbol_result env) st2)
             }
             else Some st2);
     Some (if use_google_vision env then store_result ''google_vision'' (gv_result env) st3
           else st3)
   }"

definition comprehensive_analysis ::
  "engines \<Rightarrow> string \<Rightarrow> bool \<Rightarrow> analysis_return option" where
  "comprehensive_analysis env path save_results =
     (if \<not> image_exists env then Some File_not_found
      else do {
        st \<leftarrow> stored_results env;
        c \<leftarrow> combine_results (snd st);
        if save_results \<and> results_file path \<notin> writable env then None
        else Some (Analysed \<lparr>methods_used = fst st, results = snd st, combined_result = c\<rparr>)
      })"

text \<open>The methods the caller attempts: tesseract always, the others when enabled.\<close>

definition attempted_methods :: "engines \<Rightarrow> string list" where
  "attempted_methods env =
     [''tesseract''] @ (if trocr_loaded env then [''trocr''] else []) @
     (if yolo_loaded env then [''yolo''] else []) @
     (if use_google_vision env then [''google_vision''] else [])"


text \<open>The result the engine of a method returned.\<close>

definition engine_result :: "engines \<Rightarrow> string \<Rightarrow> pydict" where
  "engine_result env m =
     (if m = ''tesseract'' then tesseract_result env
      else if m = ''trocr'' then handwriting_result env
      else if m = ''yolo'' then symbol_result env
      else gv_result env)"


section \<open>Success rate of the AI OCR module\<close>

text \<open>
  The performance block of \<^verbatim>\<open>ComprehensiveAIOCR.comprehensive_analysis\<close> in
  \<^verbatim>\<open>modules/comprehensive_ai_ocr.py\<close>, over the dictionary \<^verbatim>\<open>results['api_results']\<close>
  (every value of it is a dictionary).
\<close>

definition is_success :: "pydict \<Rightarrow> bool" where
  "is_success result = (dict_get result ''status'' PNone = PStr ''success'')"

definition successful_apis :: "(string \<times> pydict) list \<Rightarrow> nat" where
  "successful_apis api_results = length (filter is_success (map snd api_results))"

definition total_apis :: "(string \<times> pydict) list \<Rightarrow> nat" where
  "total_apis api_results = length api_results"

definition success_rate :: "(string \<times> pydict) list \<Rightarrow> real" where
  "success_rate api_results =
     (if total_apis api_results > 0
      then (real (successful_apis api_results) / real (total_apis api_results)) * 100
      else 0)"


text \<open>
  The two engines the module wraps. \<^verbatim>\<open>EngineeringOCR.process_engineering_drawing\<close>
  (\<^verbatim>\<open>enhanced_ocr.py\<close>) tests that the file exists and runs the extraction inside
  \<^verbatim>\<open>try\<close>/\<^verbatim>\<open>except Exception\<close>: \<open>extraction\<close> is the outcome of the \<^verbatim>\<open>try\<close> block, the
  text of the exception raised there or the text and the bounding boxes found.
  \<^verbatim>\<open>HandwritingOCR.recognize_handwriting_trocr\<close> (\<^verbatim>\<open>trocr_handwriting.py\<close>) does the
  same around the model call. Both return a dictionary in every case.
\<close>

definition process_engineering_drawing ::
  "bool \<Rightarrow> string \<Rightarrow> string + string \<times> pyval list \<Rightarrow> pydict" where
  "process_engineering_drawing file_exists path extraction =
     (if \<not> file_exists then [(''error'', PStr (''File not found: '' @ path))]
      else case extraction of
        Inl e \<Rightarrow> [(''error'', PStr e)]
      | Inr (t, boxes) \<Rightarrow>
          [(''original_image'', PStr path),
           (''preprocessed_image'', PStr (replace_dots ''_preprocessed.'' path)),
           (''extracted_text'', PStr (strip t)),
           (''bounding_boxes'', PList boxes),
           (''total_detections'', PInt (int (length boxes)))])"

definition recognize_handwriting_trocr :: "bool \<Rightarrow> string + string \<Rightarrow> pydict" where
  "recognize_handwriting_trocr model_loaded generation =
     (if \<not> model_loaded
      then [(''error'', PStr ''TrOCR model not loaded. Please install torch: pip install torch'')]
      else case generation of
        Inl e \<Rightarrow> [(''error'', PStr (''TrOCR processing failed: '' @ e))]
      | Inr generated_text \<Rightarrow>
          [(''text'', PStr (strip generated_text)),
           (''confidence'', PStr ''N/A''),
           (''method'', PStr ''TrOCR'')])"

text \<open>
  \<^verbatim>\<open>ComprehensiveAIOCR.analyze_with_tesseract\<close> and \<^verbatim>\<open>analyze_with_trocr\<close>: \<open>outcome\<close> is
  what the call of the engine gave, the text of an exception or the returned
  dictionary, and \<open>t\<close> the measured processing time.
\<close>

definition analyze_with_tesseract :: "string + pydict \<Rightarrow> real \<Rightarrow> pydict" where
  "analyze_with_tesseract outcome t =
     (case outcome of
        Inr result \<Rightarrow>
          [(''status'', PStr ''success''),
           (''api'', PStr ''tesseract_ocr''),
           (''processing_time'', PFloat t),
           (''data'', PDict result),
           (''method'', PStr ''traditional_ocr'')]
      | Inl e \<Rightarrow>
          [(''status'', PStr ''error''),
           (''api'', PStr ''tesseract_ocr''),
           (''error'', PStr e),
           (''processing_time'', PFloat t)])"

definition analyze_with_trocr :: "bool \<Rightarrow> string + pydict \<Rightarrow> real \<Rightarrow> pydict" where
  "analyze_with_trocr model_loaded outcome t =
     (if \<not> model_loaded
      then [(''status'', PStr ''error''), (''api'', PStr ''trocr''),
            (''error'', PStr ''TrOCR model not loaded'')]
      else case outcome of
        Inr result \<Rightarrow>
          [(''status'', PStr ''success''),
           (''api'', PStr ''trocr''),
           (''processing_time'', PFloat t),
           (''data'', PDict result),
           (''method'', PStr ''handwriting_recognition'')]
      | Inl e \<Rightarrow>
          [(''status'', PStr ''error''),
           (''api'', PStr ''trocr''),
           (''error'', PStr e),
           (''processing_time'', PFloat t)])"

text \<open>
  The dictionary \<^verbatim>\<open>results['api_results']\<close> as \<^verbatim>\<open>comprehensive_analysis\<close> fills it.
  \<open>tasks\<close> are the queued AI calls (openai, claude and google, each only when its status
  is ready) with what \<^verbatim>\<open>asyncio.gather\<close> returned for each, the text of an exception or
  the result; then come the tesseract and the trocr wrapper.
\<close>

definition task_result :: "string + pydict \<Rightarrow> pydict" where
  "task_result outcome =
     (case outcome of
        Inl e \<Rightarrow> [(''status'', PStr ''error''), (''error'', PStr e)]
      | Inr result \<Rightarrow> result)"

definition gather_api_results ::
  "(string \<times> (string + pydict)) list \<Rightarrow> pydict \<Rightarrow> pydict \<Rightarrow> (string \<times> pydict) list" where
  "gather_api_results tasks tesseract_res trocr_res =
     dict_set
       (dict_set
          (fold (\<lambda>(api_name, outcome) d. dict_set d api_name (task_result outcome)) tasks [])
          ''tesseract'' tesseract_res)
       ''trocr'' trocr_res"


section \<open>Numbers in Python values\<close>

text \<open>
  Arithmetic and ordering accept \<^verbatim>\<open>int\<close>, \<^verbatim>\<open>float\<close> and \<^verbatim>\<open>bool\<close>; any other operand
  raises TypeError.
\<close>

fun py_num :: "pyval \<Rightarrow> real option" where
  "py_num (PInt i) = Some (real_of_int i)"
| "py_num (PFloat x) = Some x"
| "py_num (PBool b) = Some (if b then 1 else 0)"
| "py_num _ = None"

text \<open>\<^verbatim>\<open>v > 0\<close>\<close>

definition py_positive :: "pyval \<Rightarrow> bool option" where
  "py_positive v = map_option (\<lambda>x. x > 0) (py_num v)"

text \<open>\<^verbatim>\<open>a / b\<close>: ZeroDivisionError is \<open>None\<close> too.\<close>

definition py_div :: "pyval \<Rightarrow> pyval \<Rightarrow> real option" where
  "py_div a b = do {
     x \<leftarrow> py_num a;
     y \<leftarrow> py_num b;
     if y = 0 then None else Some (x / y)
   }"

text \<open>\<^verbatim>\<open>v.values()\<close>\<close>

fun py_values :: "pyval \<Rightarrow> pyval list option" where
  "py_values (PDict d) = Some (map snd d)"
| "py_values _ = None"

text \<open>The elements of a list of values as numbers, or TypeError.\<close>

fun py_nums :: "pyval list \<Rightarrow> real list option" where
  "py_nums [] = Some []"
| "py_nums (v # vs) = do { x \<leftarrow> py_num v; xs \<leftarrow> py_nums vs; Some (x # xs) }"


section \<open>OCR confidence of the data pipeline\<close>

text \<open>
  \<^verbatim>\<open>DataPipeline._calculate_ocr_confidence\<close> of \<^verbatim>\<open>modules/data_pipeline.py\<close>.
  \<open>confidence_of\<close> is the loop body: the values one result appends to \<^verbatim>\<open>confidences\<close>.
\<close>

fun confidence_of :: "pyval \<Rightarrow> pyval list option" where
  "confidence_of (PDict result) =
     (if dict_get result ''status'' PNone = PStr ''success'' then
        (case map_of result ''confidence'' of
           Some v \<Rightarrow> Some [v]
         | None \<Rightarrow> do {
             ai \<leftarrow> py_positive (dict_get result ''tokens_used'' (PInt 0));
             Some [PFloat (if ai then 0.8 else 0.6)]
           })
      else Some [])"
| "confidence_of _ = None"

fun collect_confidences :: "pyval list \<Rightarrow> pyval list option" where
  "collect_confidences [] = Some []"
| "collect_confidences (r # rs) = do {
     a \<leftarrow> confidence_of r;
     b \<leftarrow> collect_confidences rs;
     Some (a @ b)
   }"

definition calculate_ocr_confidence :: "pydict \<Rightarrow> real option" where
  "calculate_ocr_confidence ocr_results = do {
     api_results \<leftarrow> py_values (dict_get ocr_results ''api_results'' (PDict []));
     confidences \<leftarrow> collect_confidences api_results;
     nums \<leftarrow> py_nums confidences;
     Some (if confidences \<noteq> [] then sum_list nums / real (length confidences) else 0)
   }"


text \<open>
  \<^verbatim>\<open>DataPipeline._summarize_api_results\<close>: the summary dictionary that the quality score
  below reads. \<open>num_add\<close> is \<^verbatim>\<open>a + v\<close> for an accumulator \<open>a\<close> that is an \<^verbatim>\<open>int\<close> or a
  \<^verbatim>\<open>float\<close>; \<open>count_up\<close> is \<^verbatim>\<open>summary[k] += v\<close>.
\<close>

fun num_add :: "pyval \<Rightarrow> pyval \<Rightarrow> pyval option" where
  "num_add (PInt a) (PInt b) = Some (PInt (a + b))"
| "num_add (PInt a) (PBool b) = Some (PInt (a + (if b then 1 else 0)))"
| "num_add (PInt a) (PFloat y) = Some (PFloat (real_of_int a + y))"
| "num_add (PFloat x) v = map_option (\<lambda>y. PFloat (x + y)) (py_num v)"
| "num_add _ _ = None"

definition count_up :: "pydict \<Rightarrow> string \<Rightarrow> pyval \<Rightarrow> pydict option" where
  "count_up summary k v = do {
     old \<leftarrow> map_of summary k;
     new \<leftarrow> num_add old v;
     Some (dict_set summary k new)
   }"

text \<open>\<^verbatim>\<open>summary['api_performance'][api_name] = entry\<close>\<close>

definition set_performance :: "pydict \<Rightarrow> string \<Rightarrow> pydict \<Rightarrow> pydict option" where
  "set_performance summary api_name entry =
     (case map_of summary ''api_performance'' of
        Some (PDict perf) \<Rightarrow>
          Some (dict_set summary ''api_performance'' (PDict (dict_set perf api_name (PDict entry))))
      | _ \<Rightarrow> None)"

fun summarize_step :: "pydict \<Rightarrow> string \<times> pydict \<Rightarrow> pydict option" where
  "summarize_step summary (api_name, result) =
     (if dict_get result ''status'' PNone = PStr ''success'' then do {
        s1 \<leftarrow> count_up summary ''successful_apis'' (PInt 1);
        s2 \<leftarrow> count_up s1 ''total_tokens_used'' (dict_get result ''tokens_used'' (PInt 0));
        s3 \<leftarrow> count_up s2 ''total_processing_time'' (dict_get result ''processing_time'' (PInt 0));
        set_performance s3 api_name
          [(''status'', PStr ''success''),
           (''processing_time'', dict_get result ''processing_time'' (PInt 0)),
           (''tokens_used'', dict_get result ''tokens_used'' (PInt 0))]
      } else do {
        s1 \<leftarrow> count_up summary ''failed_apis'' (PInt 1);
        set_performance s1 api_name
          [(''status'', PStr ''failed''),
           (''error'', dict_get result ''error'' (PStr ''Unknown error''))]
      })"

fun summarize_loop :: "pydict \<Rightarrow> (string \<times> pydict) list \<Rightarrow> pydict option" where
  "summarize_loop summary [] = Some summary"
| "summarize_loop summary (e # es) =
     (case summarize_step summary e of None \<Rightarrow> None | Some s \<Rightarrow> summarize_loop s es)"

definition summarize_api_results :: "(string \<times> pydict) list \<Rightarrow> pydict option" where
  "summarize_api_results rs =
     summarize_loop
       [(''total_apis_used'', PInt (int (length rs))),
        (''successful_apis'', PInt 0),
        (''failed_apis'', PInt 0),
        (''total_tokens_used'', PInt 0),
        (''total_processing_time'', PFloat 0),
        (''api_performance'', PDict [])] rs"


section \<open>Quality score of the integration module\<close>

text \<open>
  \<^verbatim>\<open>CadlyUltimateSystem._calculate_comprehensive_quality_score\<close> of
  \<^verbatim>\<open>cadly_ultimate_integration.py\<close>. Each of the four parts returns the scores it
  appends.
\<close>

text \<open>\<^verbatim>\<open>d.get(k1, {}).get(k2, {})\<close>\<close>

definition get_nested :: "pydict \<Rightarrow> string \<Rightarrow> string \<Rightarrow> pyval option" where
  "get_nested d k1 k2 = py_get (dict_get d k1 (PDict [])) k2 (PDict [])"

definition ocr_quality :: "pydict \<Rightarrow> real list option" where
  "ocr_quality structured_data = do {
     api_summary \<leftarrow> get_nested structured_data ''ocr_analysis'' ''api_results_summary'';
     total \<leftarrow> py_get api_summary ''total_apis_used'' (PInt 0);
     used \<leftarrow> py_positive total;
     if used then do {
       successful \<leftarrow> py_get api_summary ''successful_apis'' (PInt 0);
       total1 \<leftarrow> py_get api_summary ''total_apis_used'' (PInt 1);
       ocr_success_rate \<leftarrow> py_div successful total1;
       Some [ocr_success_rate * 0.3]
     } else Some []
   }"

definition symbol_quality :: "pydict \<Rightarrow> real list option" where
  "symbol_quality structured_data = do {
     symbol_performance \<leftarrow> get_nested structured_data ''symbol_analysis'' ''performance'';
     n \<leftarrow> py_get symbol_performance ''total_elements_detected'' (PInt 0);
     found \<leftarrow> py_positive n;
     if found then do {
       x \<leftarrow> py_num n;
       Some [min (x / 20) 1 * 0.25]
     } else Some []
   }"

definition semantic_quality :: "pydict \<Rightarrow> real list option" where
  "semantic_quality structured_data = do {
     semantic_performance \<leftarrow> get_nested structured_data ''semantic_analysis'' ''performance'';
     semantic_confidence \<leftarrow> py_get semantic_performance ''average_confidence'' (PInt 0);
     pos \<leftarrow> py_positive semantic_confidence;
     if pos then do {
       x \<leftarrow> py_num semantic_confidence;
       Some [x * 0.35]
     } else Some []
   }"

definition richness_quality :: "pydict \<Rightarrow> real list option" where
  "richness_quality structured_data = do {
     quality_metrics \<leftarrow> get_nested structured_data ''technical_data'' ''quality_metrics'';
     content_richness \<leftarrow> py_get quality_metrics ''technical_content_richness'' (PInt 0);
     pos \<leftarrow> py_positive content_richness;
     if pos then do {
       x \<leftarrow> py_num content_richness;
       Some [min (x / 15) 1 * 0.1]
     } else Some []
   }"

definition calculate_comprehensive_quality_score :: "pydict \<Rightarrow> real option" where
  "calculate_comprehensive_quality_score structured_data = do {
     s1 \<leftarrow> ocr_quality structured_data;
     s2 \<leftarrow> symbol_quality structured_data;
     s3 \<leftarrow> semantic_quality structured_data;
     s4 \<leftarrow> richness_quality structured_data;
     let scores = s1 @ s2 @ s3 @ s4;
     Some (if scores \<noteq> [] then sum_list scores else 0.5)
   }"


section \<open>Line orientation of the symbol detector\<close>

text \<open>
  \<^verbatim>\<open>EnhancedSymbolDetector._detect_lines\<close> of \<^verbatim>\<open>modules/enhanced_symbol_detection.py\<close>.
  The Hough transform is external: its output, a list of endpoint quadruples or
  \<^verbatim>\<open>None\<close>, is the input. \<open>arctan2\<close> is the two-argument arctangent of the numeric
  library, over the reals.
\<close>

datatype orientation = Horizontal | Vertical | Diagonal

definition arctan2 :: "real \<Rightarrow> real \<Rightarrow> real" where
  "arctan2 y x =
     (if x > 0 then arctan (y / x)
      else if x < 0 \<and> y \<ge> 0 then arctan (y / x) + pi
      else if x < 0 then arctan (y / x) - pi
      else if y > 0 then pi / 2
      else if y < 0 then - pi / 2
      else 0)"

definition classify_orientation :: "real \<Rightarrow> orientation" where
  "classify_orientation angle =
     (if \<bar>angle\<bar> < 10 \<or> \<bar>angle\<bar> > 170 then Horizontal
      else if 80 < \<bar>angle\<bar> \<and> \<bar>angle\<bar> < 100 then Vertical
      else Diagonal)"

record line_data =
  start_point :: "int \<times> int"
  end_point :: "int \<times> int"
  line_length :: real
  angle :: real
  orientation :: orientation

fun line_of :: "int \<times> int \<times> int \<times> int \<Rightarrow> line_data" where
  "line_of (x1, y1, x2, y2) =
     (let a = arctan2 (real_of_int (y2 - y1)) (real_of_int (x2 - x1)) * 180 / pi in
      \<lparr>start_point = (x1, y1), end_point = (x2, y2),
       line_length = sqrt (real_of_int ((x2 - x1)\<^sup>2 + (y2 - y1)\<^sup>2)),
       angle = a, orientation = classify_orientation a\<rparr>)"

fun detect_lines :: "(int \<times> int \<times> int \<times> int) list option \<Rightarrow> line_data list" where
  "detect_lines None = []"
| "detect_lines (Some lines) = map line_of lines"



section \<open>The confidence policy in words\<close>

text \<open>
  The policy that \<open>calculate_ocr_confidence\<close> is compared with: a source reports whether
  it succeeded, a confidence if it has one, and a token count if it is an AI service.
  A reported confidence counts as it is; without one, a positive token count gives 0.8
  and anything else 0.6; the score is the mean over the successful sources, 0 when
  there is none. \<open>encode_result\<close> writes a report as the dictionary the code reads.
\<close>

record source_report =
  succeeded :: bool
  reported_confidence :: "real option"
  tokens :: "int option"

definition encode_result :: "source_report \<Rightarrow> pyval" where
  "encode_result rep =
     PDict ([(''status'', PStr (if succeeded rep then ''success'' else ''error''))] @
            (case reported_confidence rep of None \<Rightarrow> [] | Some x \<Rightarrow> [(''confidence'', PFloat x)]) @
            (case tokens rep of None \<Rightarrow> [] | Some n \<Rightarrow> [(''tokens_used'', PInt n)]))"

definition policy_confidence :: "source_report \<Rightarrow> real" where
  "policy_confidence rep =
     (case reported_confidence rep of
        Some x \<Rightarrow> x
      | None \<Rightarrow> (case tokens rep of
                   Some n \<Rightarrow> if n > 0 then 0.8 else 0.6
                 | None \<Rightarrow> 0.6))"

definition mean :: "real list \<Rightarrow> real" where
  "mean xs = (if xs = [] then 0 else sum_list xs / real (length xs))"

section \<open>Properties of the combiner\<close>

text \<open>How one loop iteration depends on the accumulated dictionary.\<close>

lemma append_text_fields:
  "append_text c r k m ty = Some c' \<Longrightarrow>
     shapes_detected c' = shapes_detected c \<and> lines_detected c' = lines_detected c \<and>
     method_summary c' = method_summary c \<and> confidence_scores c' = confidence_scores c"
  by (auto simp: append_text_def split: option.splits Option.bind_splits if_splits)

lemma append_text_shift:
  "append_text c r k m ty = Some c' \<Longrightarrow>
     \<exists>d. append_text empty_combined r k m ty = Some d \<and> all_text c' = all_text c @ all_text d"
  by (auto simp: append_text_def empty_combined_def split: option.splits Option.bind_splits if_splits)

lemma append_text_None: "append_text c r k m ty = None \<Longrightarrow> append_text c0 r k m ty = None"
  by (auto simp: append_text_def split: option.splits Option.bind_splits if_splits)

lemma nested_or_old_None: "nested_or_old r k old = None \<Longrightarrow> nested_or_old r k old' = None"
  by (auto simp: nested_or_old_def split: option.splits Option.bind_splits if_splits)

lemma tesseract_branch_None: "tesseract_branch c r = None \<Longrightarrow> tesseract_branch c0 r = None"
  unfolding tesseract_branch_def bind_eq_None_conv
  by (blast dest: append_text_None)

lemma google_vision_branch_None: "google_vision_branch c r = None \<Longrightarrow> google_vision_branch c0 r = None"
  unfolding google_vision_branch_def bind_eq_None_conv
  by (blast dest: append_text_None)

lemma trocr_branch_None: "trocr_branch c r = None \<Longrightarrow> trocr_branch c0 r = None"
  unfolding trocr_branch_def bind_eq_None_conv
  by (metis append_text_None option.distinct(1))

lemma yolo_branch_None: "yolo_branch c r = None \<Longrightarrow> yolo_branch c0 r = None"
  unfolding yolo_branch_def bind_eq_None_conv
  by (metis nested_or_old_None option.distinct(1) option.exhaust)

lemma combine_step_None: "combine_step c e = None \<Longrightarrow> combine_step c0 e = None"
  using tesseract_branch_None[of c "snd e" c0] trocr_branch_None[of c "snd e" c0]
    google_vision_branch_None[of c "snd e" c0] yolo_branch_None[of c "snd e" c0]
  by (cases e) (auto split: if_splits)



lemma tesseract_branch_text:
  assumes "tesseract_branch c r = Some c'"
  shows "\<exists>d. tesseract_branch empty_combined r = Some d \<and> all_text c' = all_text c @ all_text d"
proof -
  from assms obtain c1 where c1: "append_text c r ''extracted_text'' ''tesseract'' ''printed'' = Some c1"
    and c': "all_text c' = all_text c1"
    by (auto simp: tesseract_branch_def split: Option.bind_splits)
  from append_text_shift[OF c1] obtain d1 where
    d1: "append_text empty_combined r ''extracted_text'' ''tesseract'' ''printed'' = Some d1"
    and t: "all_text c1 = all_text c @ all_text d1" by blast
  from d1 t c' show ?thesis by (simp add: tesseract_branch_def)
qed

lemma google_vision_branch_text:
  assumes "google_vision_branch c r = Some c'"
  shows "\<exists>d. google_vision_branch empty_combined r = Some d \<and> all_text c' = all_text c @ all_text d"
proof -
  from assms obtain c1 where c1: "append_text c r ''text'' ''google_vision'' ''mixed'' = Some c1"
    and c': "all_text c' = all_text c1"
    by (auto simp: google_vision_branch_def split: Option.bind_splits)
  from append_text_shift[OF c1] obtain d1 where
    d1: "append_text empty_combined r ''text'' ''google_vision'' ''mixed'' = Some d1"
    and t: "all_text c1 = all_text c @ all_text d1" by blast
  from d1 t c' show ?thesis by (simp add: google_vision_branch_def)
qed

lemma trocr_branch_text:
  assumes "trocr_branch c r = Some c'"
  shows "\<exists>d. trocr_branch empty_combined r = Some d \<and> all_text c' = all_text c @ all_text d"
proof -
  from assms obtain c1 t where c1: "append_text c r ''text'' ''trocr'' ''handwritten'' = Some c1"
    and t: "py_strip (dict_get r ''text'' (PStr [])) = Some t"
    and c': "all_text c' = all_text c1"
    by (auto simp: trocr_branch_def split: Option.bind_splits)
  from append_text_shift[OF c1] obtain d1 where
    d1: "append_text empty_combined r ''text'' ''trocr'' ''handwritten'' = Some d1"
    and a: "all_text c1 = all_text c @ all_text d1" by blast
  from d1 t a c' show ?thesis by (simp add: trocr_branch_def)
qed

lemma yolo_branch_text:
  "yolo_branch c r = Some c' \<Longrightarrow>
     \<exists>d. yolo_branch empty_combined r = Some d \<and> all_text c' = all_text c @ all_text d"
  using yolo_branch_None[of empty_combined r c]
  by (cases "yolo_branch empty_combined r")
     (auto simp: yolo_branch_def empty_combined_def split: Option.bind_splits)

lemma combine_step_text:
  "combine_step c e = Some c' \<Longrightarrow>
     \<exists>d. combine_step empty_combined e = Some d \<and> all_text c' = all_text c @ all_text d"
  using tesseract_branch_text[of c "snd e" c'] trocr_branch_text[of c "snd e" c']
    google_vision_branch_text[of c "snd e" c'] yolo_branch_text[of c "snd e" c']
  by (cases e) (auto simp: empty_combined_def split: if_splits)




lemma combine_loop_append:
  "combine_loop c (xs @ ys) =
     (case combine_loop c xs of None \<Rightarrow> None | Some c' \<Rightarrow> combine_loop c' ys)"
  by (induction xs arbitrary: c) (auto split: option.splits)

lemma combine_loop_None: "combine_loop c rs = None \<Longrightarrow> combine_loop c0 rs = None"
proof (induction rs arbitrary: c c0)
  case Nil
  then show ?case by simp
next
  case (Cons e es)
  show ?case
  proof (cases "combine_step c e")
    case None
    then have "combine_step c0 e = None" by (rule combine_step_None)
    then show ?thesis by simp
  next
    case (Some c1)
    with Cons.prems have "combine_loop c1 es = None" by simp
    then have "\<And>c2. combine_loop c2 es = None" by (rule Cons.IH)
    then show ?thesis by (simp split: option.splits)
  qed
qed

lemma combine_results_single: "combine_results [e] = combine_step empty_combined e"
  by (simp add: combine_results_def split: option.splits)

lemma combine_loop_text:
  "combine_loop c rs = Some c' \<Longrightarrow> all_text c' = all_text c @ concat (map text_contribution rs)"
proof (induction rs arbitrary: c)
  case Nil
  then show ?case by simp
next
  case (Cons e es)
  from Cons.prems obtain c1 where c1: "combine_step c e = Some c1"
    and rest: "combine_loop c1 es = Some c'"
    by (auto split: option.splits)
  from combine_step_text[OF c1] obtain d where d: "combine_step empty_combined e = Some d"
    and t: "all_text c1 = all_text c @ all_text d" by blast
  from d have "text_contribution e = all_text d"
    by (simp add: text_contribution_def combine_results_single)
  with Cons.IH[OF rest] t show ?case by simp
qed

lemma combine_loop_ok_iff:
  "(combine_loop c rs \<noteq> None) = (\<forall>e\<in>set rs. combine_results [e] \<noteq> None)"
proof (induction rs arbitrary: c)
  case Nil
  then show ?case by simp
next
  case (Cons e es)
  show ?case
  proof (cases "combine_step c e")
    case None
    then have "combine_step empty_combined e = None" by (rule combine_step_None)
    with None show ?thesis by (simp add: combine_results_single)
  next
    case (Some c1)
    then have "combine_step empty_combined e \<noteq> None"
      using combine_step_None[of empty_combined e c] by auto
    with Some Cons.IH[of c1] show ?thesis by (simp add: combine_results_single)
  qed
qed




lemma map_fst_dict_set:
  "map fst (dict_set d k v) = (if k \<in> fst ` set d then map fst d else map fst d @ [k])"
  by (induction d) force+

lemma map_of_dict_set: "map_of (dict_set d k v) = (map_of d)(k \<mapsto> v)"
  by (induction d) auto

lemma step_fields_text_sources:
  assumes "combine_step c e = Some c'" "fst e \<noteq> ''yolo''"
  shows "shapes_detected c' = shapes_detected c \<and> lines_detected c' = lines_detected c"
  using assms append_text_fields[of c "snd e"]
  by (cases e)
     (auto simp: tesseract_branch_def trocr_branch_def google_vision_branch_def
           split: if_splits Option.bind_splits)

lemma step_unknown: "fst e \<notin> set known_methods \<Longrightarrow> combine_step c e = Some c"
  by (cases e) (auto simp: known_methods_def)

lemma branch_summary:
  "tesseract_branch c r = Some c' \<Longrightarrow> \<exists>v. method_summary c' = dict_set (method_summary c) ''tesseract'' v"
  "trocr_branch c r = Some c' \<Longrightarrow> \<exists>v. method_summary c' = dict_set (method_summary c) ''trocr'' v"
  "google_vision_branch c r = Some c' \<Longrightarrow> \<exists>v. method_summary c' = dict_set (method_summary c) ''google_vision'' v"
  "yolo_branch c r = Some c' \<Longrightarrow> \<exists>v. method_summary c' = dict_set (method_summary c) ''yolo'' v"
  using append_text_fields[of c r]
  by (auto simp: tesseract_branch_def trocr_branch_def google_vision_branch_def yolo_branch_def
           split: Option.bind_splits)

lemma step_summary:
  assumes "combine_step c e = Some c'"
  shows "if fst e \<in> set known_methods
         then (\<exists>v. method_summary c' = dict_set (method_summary c) (fst e) v)
         else method_summary c' = method_summary c"
  using assms branch_summary[of c "snd e" c']
  by (cases e) (auto simp: known_methods_def split: if_splits)

lemma step_summary_keys:
  assumes "combine_step c e = Some c'"
  shows "map fst (method_summary c') =
     (if fst e \<in> set known_methods \<and> fst e \<notin> fst ` set (method_summary c)
      then map fst (method_summary c) @ [fst e] else map fst (method_summary c))"
proof (cases "fst e \<in> set known_methods")
  case True
  with step_summary[OF assms] obtain v where
    "method_summary c' = dict_set (method_summary c) (fst e) v" by auto
  with True show ?thesis by (simp add: map_fst_dict_set)
next
  case False
  with step_summary[OF assms] show ?thesis by simp
qed

lemma yolo_branch_fields:
  "yolo_branch c r = Some c' \<Longrightarrow>
     nested_or_old r ''shapes'' (shapes_detected c) = Some (shapes_detected c') \<and>
     nested_or_old r ''lines'' (lines_detected c) = Some (lines_detected c')"
  by (auto simp: yolo_branch_def split: Option.bind_splits)

lemma combine_loop_no_yolo:
  "''yolo'' \<notin> fst ` set rs \<Longrightarrow> combine_loop c rs = Some c' \<Longrightarrow>
     shapes_detected c' = shapes_detected c \<and> lines_detected c' = lines_detected c"
proof (induction rs arbitrary: c)
  case Nil
  then show ?case by simp
next
  case (Cons e es)
  from Cons.prems obtain c1 where c1: "combine_step c e = Some c1"
    and rest: "combine_loop c1 es = Some c'"
    by (auto split: option.splits)
  from Cons.prems have ne: "fst e \<noteq> ''yolo''" and es: "''yolo'' \<notin> fst ` set es" by auto
  from step_fields_text_sources[OF c1 ne] Cons.IH[OF es rest] show ?case by simp
qed

lemma combine_loop_visual:
  "distinct (map fst rs) \<Longrightarrow> combine_loop c rs = Some c' \<Longrightarrow>
     Some (shapes_detected c') =
       (case map_of rs ''yolo'' of None \<Rightarrow> Some (shapes_detected c)
        | Some r \<Rightarrow> nested_or_old r ''shapes'' (shapes_detected c)) \<and>
     Some (lines_detected c') =
       (case map_of rs ''yolo'' of None \<Rightarrow> Some (lines_detected c)
        | Some r \<Rightarrow> nested_or_old r ''lines'' (lines_detected c))"
proof (induction rs arbitrary: c)
  case Nil
  then show ?case by simp
next
  case (Cons e es)
  from Cons.prems obtain c1 where c1: "combine_step c e = Some c1"
    and rest: "combine_loop c1 es = Some c'"
    by (auto split: option.splits)
  from Cons.prems have d: "distinct (map fst es)" and nin: "fst e \<notin> fst ` set es" by auto
  show ?case
  proof (cases "fst e = ''yolo''")
    case True
    with nin have "''yolo'' \<notin> fst ` set es" by simp
    from combine_loop_no_yolo[OF this rest]
    have same: "shapes_detected c' = shapes_detected c1" "lines_detected c' = lines_detected c1"
      by simp_all
    from c1 True have "yolo_branch c (snd e) = Some c1" by (cases e) simp
    from yolo_branch_fields[OF this] same True show ?thesis by (cases e) simp
  next
    case False
    from step_fields_text_sources[OF c1 False]
    have eq: "shapes_detected c1 = shapes_detected c" "lines_detected c1 = lines_detected c"
      by simp_all
    from False have m: "map_of (e # es) ''yolo'' = map_of es ''yolo''" by (cases e) simp
    from Cons.IH[OF d rest] show ?thesis unfolding eq m .
  qed
qed

lemma combine_loop_drop_unknown:
  "fst e \<notin> set known_methods \<Longrightarrow> combine_loop c (xs @ e # ys) = combine_loop c (xs @ ys)"
  by (simp add: combine_loop_append step_unknown split: option.splits)

lemma combine_loop_summary_keys:
  "combine_loop c rs = Some c' \<Longrightarrow> distinct (map fst rs) \<Longrightarrow>
   set (map fst rs) \<inter> set (map fst (method_summary c)) = {} \<Longrightarrow>
     map fst (method_summary c') =
       map fst (method_summary c) @ filter (\<lambda>k. k \<in> set known_methods) (map fst rs)"
proof (induction rs arbitrary: c)
  case Nil
  then show ?case by simp
next
  case (Cons e es)
  from Cons.prems obtain c1 where c1: "combine_step c e = Some c1"
    and rest: "combine_loop c1 es = Some c'"
    by (auto split: option.splits)
  from Cons.prems have d: "distinct (map fst es)" and nin: "fst e \<notin> set (map fst es)"
    and fresh: "fst e \<notin> fst ` set (method_summary c)"
    and disj: "set (map fst es) \<inter> set (map fst (method_summary c)) = {}" by auto
  from step_summary_keys[OF c1] fresh
  have k1: "map fst (method_summary c1) =
      map fst (method_summary c) @ (if fst e \<in> set known_methods then [fst e] else [])"
    by simp
  have "set (map fst (method_summary c1)) \<subseteq> set (map fst (method_summary c)) \<union> {fst e}"
    unfolding k1 by auto
  with nin disj have "set (map fst es) \<inter> set (map fst (method_summary c1)) = {}"
    by blast
  with rest d have "map fst (method_summary c') =
      map fst (method_summary c1) @ filter (\<lambda>k. k \<in> set known_methods) (map fst es)"
    by (rule Cons.IH)
  then show ?case unfolding k1 by simp
qed


lemma combine_results_perm_visual:
  assumes d: "distinct (map fst rs)" and p: "mset rs' = mset rs"
    and c: "combine_results rs = Some c" and c': "combine_results rs' = Some c'"
  shows "shapes_detected c' = shapes_detected c \<and> lines_detected c' = lines_detected c"
proof -
  from p have "mset (map fst rs') = mset (map fst rs)" by (metis mset_map)
  with d have d': "distinct (map fst rs')" by (metis mset_eq_imp_distinct_iff)
  from p have "set rs' = set rs" by (rule mset_eq_setD)
  with d d' have m: "map_of rs' = map_of rs" by (simp add: map_of_inject_set)
  from combine_loop_visual[OF d c[unfolded combine_results_def]]
    combine_loop_visual[OF d' c'[unfolded combine_results_def]]
  show ?thesis unfolding m by (metis option.inject)
qed


lemma combine_results_text:
  "combine_results rs = Some c \<Longrightarrow> all_text c = concat (map text_contribution rs)"
  using combine_loop_text[of empty_combined rs c]
  by (simp add: combine_results_def empty_combined_def)

lemma combine_results_ok_iff:
  "(combine_results rs \<noteq> None) = (\<forall>e\<in>set rs. combine_results [e] \<noteq> None)"
  using combine_loop_ok_iff[of empty_combined rs] by (simp add: combine_results_def)

lemma combine_results_visual:
  assumes "distinct (map fst rs)" and "combine_results rs = Some c"
  shows "Some (shapes_detected c) =
       (case map_of rs ''yolo'' of None \<Rightarrow> Some (PList [])
        | Some r \<Rightarrow> nested_or_old r ''shapes'' (PList []))"
    and "Some (lines_detected c) =
       (case map_of rs ''yolo'' of None \<Rightarrow> Some (PList [])
        | Some r \<Rightarrow> nested_or_old r ''lines'' (PList []))"
proof -
  have s: "shapes_detected empty_combined = PList []" "lines_detected empty_combined = PList []"
    by (simp_all add: empty_combined_def)
  from combine_loop_visual[OF assms(1) assms(2)[unfolded combine_results_def]]
  show "Some (shapes_detected c) =
       (case map_of rs ''yolo'' of None \<Rightarrow> Some (PList [])
        | Some r \<Rightarrow> nested_or_old r ''shapes'' (PList []))"
    and "Some (lines_detected c) =
       (case map_of rs ''yolo'' of None \<Rightarrow> Some (PList [])
        | Some r \<Rightarrow> nested_or_old r ''lines'' (PList []))"
    unfolding s by simp_all
qed

text \<open>An entry that carries only an error message adds no content.\<close>

lemma error_entry_step:
  "\<exists>c1. combine_step c (k, [(''error'', PStr msg)]) = Some c1 \<and> all_text c1 = all_text c \<and>
        shapes_detected c1 = shapes_detected c \<and> lines_detected c1 = lines_detected c"
proof -
  have t: "tesseract_branch c [(''error'', PStr msg)] =
      Some (c\<lparr>method_summary := dict_set (method_summary c) ''tesseract''
        [(''detections'', PInt 0), (''type'', PStr ''printed_text'')]\<rparr>)"
    by (simp add: tesseract_branch_def append_text_def dict_get_def)
  have g: "google_vision_branch c [(''error'', PStr msg)] =
      Some (c\<lparr>method_summary := dict_set (method_summary c) ''google_vision''
        [(''detections'', PInt 0), (''type'', PStr ''mixed_text'')]\<rparr>)"
    by (simp add: google_vision_branch_def append_text_def dict_get_def)
  have h: "trocr_branch c [(''error'', PStr msg)] =
      Some (c\<lparr>method_summary := dict_set (method_summary c) ''trocr''
        [(''text_found'', PBool False), (''type'', PStr ''handwritten_text'')]\<rparr>)"
    by (simp add: trocr_branch_def append_text_def dict_get_def strip_def)
  have y: "yolo_branch c [(''error'', PStr msg)] =
      Some (c\<lparr>method_summary := dict_set (method_summary c) ''yolo''
        [(''shapes'', PInt 0), (''lines'', PInt 0), (''objects'', PInt 0),
         (''type'', PStr ''visual_elements'')]\<rparr>)"
    by (simp add: yolo_branch_def nested_or_old_def dict_get_def)
  show ?thesis unfolding combine_step.simps t g h y by simp
qed

lemma error_entry_contribution: "text_contribution (k, [(''error'', PStr msg)]) = []"
proof -
  from error_entry_step[of empty_combined k msg] obtain c1 where
    "combine_step empty_combined (k, [(''error'', PStr msg)]) = Some c1"
    "all_text c1 = all_text empty_combined" by blast
  then show ?thesis
    by (simp add: text_contribution_def combine_results_single empty_combined_def)
qed

lemma error_entry_ok: "combine_results [(k, [(''error'', PStr msg)])] \<noteq> None"
proof -
  from error_entry_step[of empty_combined k msg] obtain c1 where
    "combine_step empty_combined (k, [(''error'', PStr msg)]) = Some c1" by blast
  then show ?thesis by (simp add: combine_results_single)
qed

lemma failure_entry_same_content:
  assumes d: "distinct (map fst (xs @ (k, r) # ys))"
    and c': "combine_results (xs @ ys) = Some c'"
  shows "\<exists>c''. combine_results (xs @ (k, [(''error'', PStr msg)]) # ys) = Some c'' \<and>
           all_text c'' = all_text c' \<and> shapes_detected c'' = shapes_detected c' \<and>
           lines_detected c'' = lines_detected c'"
proof -
  let ?f = "(k, [(''error'', PStr msg)])"
  from c' have "\<forall>a\<in>set (xs @ ys). combine_results [a] \<noteq> None"
    using combine_results_ok_iff[of "xs @ ys"] by simp
  with error_entry_ok[of k msg] have "\<forall>a\<in>set (xs @ ?f # ys). combine_results [a] \<noteq> None"
    by auto
  then have "combine_results (xs @ ?f # ys) \<noteq> None"
    by (simp only: combine_results_ok_iff[of "xs @ ?f # ys"])
  then obtain c'' where c'': "combine_results (xs @ ?f # ys) = Some c''" by auto
  have t: "all_text c'' = all_text c'"
    using combine_results_text[OF c''] combine_results_text[OF c']
    by (simp add: error_entry_contribution)
  from d have d': "distinct (map fst (xs @ ys))" and df: "distinct (map fst (xs @ ?f # ys))"
    by auto
  have m: "(case map_of (xs @ ?f # ys) ''yolo'' of None \<Rightarrow> Some (PList [])
            | Some r \<Rightarrow> nested_or_old r key (PList [])) =
           (case map_of (xs @ ys) ''yolo'' of None \<Rightarrow> Some (PList [])
            | Some r \<Rightarrow> nested_or_old r key (PList []))" if "key \<noteq> ''error''" for key
  proof (cases "k = ''yolo''")
    case True
    with d have "map_of xs ''yolo'' = None" "map_of ys ''yolo'' = None"
      by (auto simp: map_of_eq_None_iff)
    with True that show ?thesis by (simp add: map_add_def nested_or_old_def)
  next
    case False
    then show ?thesis by (simp add: map_add_def split: option.splits)
  qed
  have "Some (shapes_detected c'') = Some (shapes_detected c')"
    unfolding combine_results_visual(1)[OF df c''] combine_results_visual(1)[OF d' c']
    by (rule m) simp
  moreover have "Some (lines_detected c'') = Some (lines_detected c')"
    unfolding combine_results_visual(2)[OF df c''] combine_results_visual(2)[OF d' c']
    by (rule m) simp
  ultimately show ?thesis using c'' t by simp
qed

text \<open>What the caller stores, and the keys of the method summary.\<close>

lemma stored_results_methods:
  assumes "stored_results env = Some st"
  shows "map fst (snd st) = fst st \<and>
         fst st = filter (\<lambda>m. \<not> dict_has (engine_result env m) ''error'') (attempted_methods env)"
  using assms
  by (auto simp: stored_results_def store_result_def Let_def attempted_methods_def
      engine_result_def split: if_splits Option.bind_splits)

lemma attempted_methods_known:
  "distinct (attempted_methods env) \<and> set (attempted_methods env) \<subseteq> set known_methods"
  by (simp add: attempted_methods_def known_methods_def)

lemma combine_results_summary_keys:
  assumes "distinct (map fst rs)" and "combine_results rs = Some c"
  shows "map fst (method_summary c) = filter (\<lambda>k. k \<in> set known_methods) (map fst rs)"
  using combine_loop_summary_keys[of empty_combined rs c] assms
  by (simp add: combine_results_def empty_combined_def)

text \<open>Every text item names the method of the entry it comes from.\<close>

lemma append_text_items:
  assumes "append_text c r key m ty = Some c'" and "item \<in> set (all_text c')"
  shows "item \<in> set (all_text c) \<or> map_of item ''method'' = Some (PStr m)"
  using assms
  by (auto simp: append_text_def text_item_def split: option.splits Option.bind_splits if_splits)

lemma text_contribution_method:
  assumes "item \<in> set (text_contribution (k, r))"
  shows "map_of item ''method'' = Some (PStr k)"
proof -
  from assms obtain d where d: "combine_step empty_combined (k, r) = Some d"
    and i: "item \<in> set (all_text d)"
    by (cases "combine_step empty_combined (k, r)")
       (simp_all add: text_contribution_def combine_results_single del: combine_step.simps)
  have e: "all_text empty_combined = []" by (simp add: empty_combined_def)
  consider (t) "k = ''tesseract''" | (h) "k = ''trocr''" | (g) "k = ''google_vision''"
    | (y) "k = ''yolo''" | (o) "k \<notin> set known_methods"
    by (auto simp: known_methods_def)
  then show ?thesis
  proof cases
    case t
    with d obtain c1 where "append_text empty_combined r ''extracted_text'' ''tesseract'' ''printed'' = Some c1"
      and "all_text d = all_text c1"
      by (auto simp: tesseract_branch_def split: Option.bind_splits)
    with append_text_items[of empty_combined r _ _ _ c1 item] i e t show ?thesis by simp
  next
    case h
    with d obtain c1 where "append_text empty_combined r ''text'' ''trocr'' ''handwritten'' = Some c1"
      and "all_text d = all_text c1"
      by (auto simp: trocr_branch_def split: Option.bind_splits)
    with append_text_items[of empty_combined r _ _ _ c1 item] i e h show ?thesis by simp
  next
    case g
    with d obtain c1 where "append_text empty_combined r ''text'' ''google_vision'' ''mixed'' = Some c1"
      and "all_text d = all_text c1"
      by (auto simp: google_vision_branch_def split: Option.bind_splits)
    with append_text_items[of empty_combined r _ _ _ c1 item] i e g show ?thesis by simp
  next
    case y
    with d i e show ?thesis by (auto simp: yolo_branch_def split: Option.bind_splits)
  next
    case o
    with step_unknown[of "(k, r)" empty_combined] d i e show ?thesis by simp
  qed
qed

lemma blank_text_no_contribution:
  assumes "map_of r key = Some (PStr s)" and "strip s = []"
  shows "append_text c r key m ty = Some c"
  using assms by (simp add: append_text_def)

lemma successful_le_total: "successful_apis rs \<le> total_apis rs"
  by (simp add: successful_apis_def total_apis_def le_trans[OF length_filter_le])

text \<open>The OCR confidence on encoded reports.\<close>

lemma confidence_of_encoded:
  "confidence_of (encode_result rep) =
     Some (if succeeded rep then [PFloat (policy_confidence rep)] else [])"
  by (cases "reported_confidence rep"; cases "tokens rep")
     (simp_all add: encode_result_def policy_confidence_def dict_get_def py_positive_def)

lemma collect_confidences_encoded:
  "collect_confidences (map encode_result reps) =
     Some (map (\<lambda>rep. PFloat (policy_confidence rep)) (filter succeeded reps))"
  by (induction reps) (simp_all add: confidence_of_encoded)

lemma py_nums_floats: "py_nums (map (\<lambda>x. PFloat (f x)) xs) = Some (map f xs)"
  by (induction xs) simp_all

lemma ocr_confidence_encoded:
  assumes "length names = length reps"
  shows "calculate_ocr_confidence [(''api_results'', PDict (zip names (map encode_result reps)))] =
         Some (mean (map policy_confidence (filter succeeded reps)))"
proof -
  from assms have "map snd (zip names (map encode_result reps)) = map encode_result reps"
    by simp
  then show ?thesis
    by (simp add: calculate_ocr_confidence_def dict_get_def collect_confidences_encoded
        py_nums_floats mean_def)
qed

text \<open>
  The summary entry of a source does not depend on the other sources; what the caller
  keeps; and what the Google Vision call reports when it finds no annotation.
\<close>

lemma step_entry_same:
  assumes "combine_step c (m, r) = Some c'" and "combine_step c0 (m, r) = Some c0'"
    and "m \<in> set known_methods"
  shows "map_of (method_summary c') m = map_of (method_summary c0') m"
proof -
  from assms(3) consider "m = ''tesseract''" | "m = ''trocr''" | "m = ''google_vision''"
    | "m = ''yolo''" by (auto simp: known_methods_def)
  then show ?thesis
  proof cases
    case 1
    with assms(1,2) show ?thesis
      by (auto simp: tesseract_branch_def map_of_dict_set split: Option.bind_splits)
  next
    case 2
    with assms(1,2) show ?thesis
      by (auto simp: trocr_branch_def map_of_dict_set split: Option.bind_splits)
  next
    case 3
    with assms(1,2) show ?thesis
      by (auto simp: google_vision_branch_def map_of_dict_set split: Option.bind_splits)
  next
    case 4
    with assms(1,2) show ?thesis
      by (auto simp: yolo_branch_def map_of_dict_set split: Option.bind_splits)
  qed
qed

lemma step_other_entry:
  assumes "combine_step c e = Some c'" and "fst e \<noteq> m"
  shows "map_of (method_summary c') m = map_of (method_summary c) m"
proof (cases "fst e \<in> set known_methods")
  case True
  with step_summary[OF assms(1)] obtain v where
    "method_summary c' = dict_set (method_summary c) (fst e) v" by auto
  with assms(2) show ?thesis by (simp add: map_of_dict_set)
next
  case False
  with step_summary[OF assms(1)] show ?thesis by simp
qed

lemma loop_other_entry:
  "combine_loop c rs = Some c' \<Longrightarrow> m \<notin> fst ` set rs \<Longrightarrow>
     map_of (method_summary c') m = map_of (method_summary c) m"
proof (induction rs arbitrary: c)
  case Nil
  then show ?case by simp
next
  case (Cons e es)
  from Cons.prems obtain c1 where c1: "combine_step c e = Some c1"
    and rest: "combine_loop c1 es = Some c'"
    by (auto split: option.splits)
  from Cons.prems have ne: "fst e \<noteq> m" and nin: "m \<notin> fst ` set es" by auto
  from Cons.IH[OF rest nin] step_other_entry[OF c1 ne] show ?case by simp
qed

lemma loop_entry:
  "combine_loop c rs = Some c' \<Longrightarrow> distinct (map fst rs) \<Longrightarrow> (m, r) \<in> set rs \<Longrightarrow>
   m \<in> set known_methods \<Longrightarrow> combine_step c0 (m, r) = Some c0' \<Longrightarrow>
     map_of (method_summary c') m = map_of (method_summary c0') m"
proof (induction rs arbitrary: c)
  case Nil
  then show ?case by simp
next
  case (Cons e es)
  from Cons.prems(1) obtain c1 where c1: "combine_step c e = Some c1"
    and rest: "combine_loop c1 es = Some c'"
    by (auto split: option.splits)
  from Cons.prems(2) have d: "distinct (map fst es)" and nin: "fst e \<notin> fst ` set es" by auto
  show ?case
  proof (cases "e = (m, r)")
    case True
    with nin have "m \<notin> fst ` set es" by simp
    from loop_other_entry[OF rest this]
    have "map_of (method_summary c') m = map_of (method_summary c1) m" .
    also from c1 True have "combine_step c (m, r) = Some c1" by simp
    from step_entry_same[OF this Cons.prems(5) Cons.prems(4)]
    have "map_of (method_summary c1) m = map_of (method_summary c0') m" .
    finally show ?thesis .
  next
    case False
    with Cons.prems(3) have "(m, r) \<in> set es" by simp
    from Cons.IH[OF rest d this Cons.prems(4) Cons.prems(5)] show ?thesis .
  qed
qed

lemma combine_results_entry:
  assumes "distinct (map fst rs)" and "combine_results rs = Some c" and "(m, r) \<in> set rs"
    and "m \<in> set known_methods"
  shows "map_of (method_summary c) m = summary_of (m, r)"
proof -
  from assms(2) have "combine_results rs \<noteq> None" by simp
  with combine_results_ok_iff[of rs] assms(3) have "combine_results [(m, r)] \<noteq> None" by blast
  then obtain d where d: "combine_step empty_combined (m, r) = Some d"
    by (auto simp: combine_results_single)
  from assms(2) have "combine_loop empty_combined rs = Some c" by (simp add: combine_results_def)
  from loop_entry[OF this assms(1) assms(3) assms(4) d]
  have "map_of (method_summary c) m = map_of (method_summary d) m" .
  with d show ?thesis by (simp add: summary_of_def combine_results_single del: combine_step.simps)
qed

lemma analysis_methods:
  assumes "comprehensive_analysis env path save = Some (Analysed a)"
  shows "map fst (method_summary (combined_result a)) = methods_used a \<and>
         methods_used a =
           filter (\<lambda>m. \<not> dict_has (engine_result env m) ''error'') (attempted_methods env)"
proof -
  from assms obtain st where st: "stored_results env = Some st"
    and c: "combine_results (snd st) = Some (combined_result a)"
    and m: "methods_used a = fst st"
    by (auto simp: comprehensive_analysis_def split: if_splits Option.bind_splits)
  from stored_results_methods[OF st] have k: "map fst (snd st) = fst st"
    and f: "fst st =
      filter (\<lambda>m. \<not> dict_has (engine_result env m) ''error'') (attempted_methods env)"
    by simp_all
  from attempted_methods_known[of env] f have d: "distinct (fst st)"
    and kn: "set (fst st) \<subseteq> set known_methods" by auto
  from d k have "distinct (map fst (snd st))" by simp
  from combine_results_summary_keys[OF this c] k kn
  have "map fst (method_summary (combined_result a)) = fst st"
    by (simp add: filter_id_conv subset_iff)
  with m f show ?thesis by simp
qed

lemma no_annotation_is_error:
  assumes "\<not> py_truthy (dict_get first ''textAnnotations'' (PList []))"
  shows "analyze_with_google_vision True
           (Some (PDict [(''responses'', PList (PDict first # others))])) e = no_text_detected"
  using assms
  by (simp add: analyze_with_google_vision_def text_detection_def dict_has_def)

lemma blank_summaries:
  assumes "map_of r key = Some (PStr s)" and "strip s = []"
  shows "key = ''extracted_text'' \<Longrightarrow> text_contribution (''tesseract'', r) = [] \<and>
           summary_of (''tesseract'', r) =
             Some [(''detections'', dict_get r ''total_detections'' (PInt 0)),
                   (''type'', PStr ''printed_text'')]"
    and "key = ''text'' \<Longrightarrow> text_contribution (''trocr'', r) = [] \<and>
           summary_of (''trocr'', r) =
             Some [(''text_found'', PBool False), (''type'', PStr ''handwritten_text'')]"
    and "key = ''text'' \<Longrightarrow> text_contribution (''google_vision'', r) = [] \<and>
           summary_of (''google_vision'', r) =
             Some [(''detections'', dict_get r ''total_detections'' (PInt 0)),
                   (''type'', PStr ''mixed_text'')]"
  using assms
  by (simp_all add: text_contribution_def summary_of_def combine_results_single
      tesseract_branch_def trocr_branch_def google_vision_branch_def append_text_def
      empty_combined_def dict_get_def)

section \<open>Claims\<close>

text \<open>
  C10. The combiner recognises only the method names tesseract, trocr, google_vision and
  yolo. An entry under any other name, whatever it carries, is skipped: the output is
  the one the input without that entry gives (text, shapes, lines and method summary
  alike), and such an entry alone gives the empty combined dictionary.
\<close>

theorem unknown_method_ignored:
  assumes "fst e \<notin> set known_methods"
  shows "combine_results (xs @ e # ys) = combine_results (xs @ ys) \<and>
         combine_results [e] = Some empty_combined"
  using assms combine_loop_drop_unknown[of e empty_combined xs ys]
  by (simp add: combine_results_def step_unknown)

theorem unknown_method_ignored_witness:
  "fst (''openai'', [(''text'', PStr ''Steel Bracket''),
       (''shapes'', PDict [(''shapes'', PList [PStr ''circle''])])]) \<notin> set known_methods \<and>
   combine_results ([(''tesseract'', [(''extracted_text'', PStr ''150mm'')])] @
       (''openai'', [(''text'', PStr ''Steel Bracket''),
         (''shapes'', PDict [(''shapes'', PList [PStr ''circle''])])]) # []) =
   combine_results ([(''tesseract'', [(''extracted_text'', PStr ''150mm'')])] @ []) \<and>
   combine_results [(''openai'', [(''text'', PStr ''Steel Bracket''),
       (''shapes'', PDict [(''shapes'', PList [PStr ''circle''])])])] = Some empty_combined"
  using unknown_method_ignored[of "(''openai'', [(''text'', PStr ''Steel Bracket''),
       (''shapes'', PDict [(''shapes'', PList [PStr ''circle''])])])"
     "[(''tesseract'', [(''extracted_text'', PStr ''150mm'')])]" "[]"]
  by (simp add: known_methods_def)

text \<open>
  C7. Order preservation. The text list is the concatenation, in input order, of what each
  entry contributes; a permuted input (same entries, distinct keys) is combined too, its
  text list is the contributions in the permuted order, and its shapes and lines, which
  come from the yolo entry alone, are the same.
\<close>

theorem order_preserved:
  assumes "distinct (map fst rs)" and "mset rs' = mset rs" and "combine_results rs = Some c"
  shows "all_text c = concat (map text_contribution rs) \<and>
         (\<exists>c'. combine_results rs' = Some c' \<and>
               all_text c' = concat (map text_contribution rs') \<and>
               shapes_detected c' = shapes_detected c \<and>
               lines_detected c' = lines_detected c)"
proof -
  from assms(3) have t: "all_text c = concat (map text_contribution rs)"
    using combine_loop_text[of empty_combined rs c]
    by (simp add: combine_results_def empty_combined_def)
  from assms(3) have "\<forall>e\<in>set rs. combine_results [e] \<noteq> None"
    using combine_loop_ok_iff[of empty_combined rs] by (simp add: combine_results_def)
  moreover from assms(2) have "set rs' = set rs" by (rule mset_eq_setD)
  ultimately have "combine_results rs' \<noteq> None"
    using combine_loop_ok_iff[of empty_combined rs'] by (simp add: combine_results_def)
  then obtain c' where c': "combine_results rs' = Some c'" by auto
  then have t': "all_text c' = concat (map text_contribution rs')"
    using combine_loop_text[of empty_combined rs' c']
    by (simp add: combine_results_def empty_combined_def)
  from combine_results_perm_visual[OF assms(1,2,3) c'] t t' c' show ?thesis by simp
qed

theorem order_preserved_witness:
  "distinct (map fst [(''tesseract'', [(''extracted_text'', PStr ''DIM 150mm'')]),
                      (''yolo'', [(''shapes'', PDict [(''shapes'', PList [PStr ''circle''])])]),
                      (''trocr'', [(''text'', PStr '' ok '')])]) \<and>
   mset [(''trocr'', [(''text'', PStr '' ok '')]),
         (''tesseract'', [(''extracted_text'', PStr ''DIM 150mm'')]),
         (''yolo'', [(''shapes'', PDict [(''shapes'', PList [PStr ''circle''])])])] =
   mset [(''tesseract'', [(''extracted_text'', PStr ''DIM 150mm'')]),
         (''yolo'', [(''shapes'', PDict [(''shapes'', PList [PStr ''circle''])])]),
         (''trocr'', [(''text'', PStr '' ok '')])] \<and>
   (\<exists>c c'. combine_results [(''tesseract'', [(''extracted_text'', PStr ''DIM 150mm'')]),
         (''yolo'', [(''shapes'', PDict [(''shapes'', PList [PStr ''circle''])])]),
         (''trocr'', [(''text'', PStr '' ok '')])] = Some c \<and>
     all_text c = [text_item ''tesseract'' ''DIM 150mm'' ''printed'',
                   text_item ''trocr'' ''ok'' ''handwritten''] \<and>
     combine_results [(''trocr'', [(''text'', PStr '' ok '')]),
         (''tesseract'', [(''extracted_text'', PStr ''DIM 150mm'')]),
         (''yolo'', [(''shapes'', PDict [(''shapes'', PList [PStr ''circle''])])])] = Some c' \<and>
     all_text c' = [text_item ''trocr'' ''ok'' ''handwritten'',
                    text_item ''tesseract'' ''DIM 150mm'' ''printed''] \<and>
     shapes_detected c' = shapes_detected c \<and> shapes_detected c = PList [PStr ''circle''])"
proof -
  let ?t = "(''tesseract'', [(''extracted_text'', PStr ''DIM 150mm'')])"
  let ?y = "(''yolo'', [(''shapes'', PDict [(''shapes'', PList [PStr ''circle''])])])"
  let ?h = "(''trocr'', [(''text'', PStr '' ok '')])"
  have d: "distinct (map fst [?t, ?y, ?h])" by simp
  have m: "mset [?h, ?t, ?y] = mset [?t, ?y, ?h]" by simp
  obtain c where c: "combine_results [?t, ?y, ?h] = Some c"
    and sh: "shapes_detected c = PList [PStr ''circle'']"
    by (simp add: combine_results_def empty_combined_def tesseract_branch_def trocr_branch_def
        yolo_branch_def append_text_def nested_or_old_def dict_get_def dict_has_def
        strip_def is_space_def)
  have tc: "text_contribution ?t = [text_item ''tesseract'' ''DIM 150mm'' ''printed'']"
    "text_contribution ?y = []"
    "text_contribution ?h = [text_item ''trocr'' ''ok'' ''handwritten'']"
    by (simp_all add: text_contribution_def combine_results_def empty_combined_def
        tesseract_branch_def trocr_branch_def
        yolo_branch_def append_text_def nested_or_old_def dict_get_def dict_has_def
        strip_def is_space_def)
  from order_preserved[OF d m c] tc sh c d m show ?thesis by auto
qed

text \<open>
  C9. Failure isolation. Take any input with distinct keys that is combined without an
  exception, and any position in it. When the source at that position fails, its entry
  is either absent (the caller stores no failed result) or carries only an error
  message. In both cases the input is still combined, the text list is the
  contributions of the other entries in their order, and shapes and lines are unchanged
  unless the failed source is the yolo entry itself, whose own shapes and lines are
  then gone (the fields are back to the empty list).
\<close>

theorem failure_isolated:
  assumes "distinct (map fst (xs @ e # ys))" and "combine_results (xs @ e # ys) = Some c"
  shows "\<exists>c' c''. combine_results (xs @ ys) = Some c' \<and>
           combine_results (xs @ (fst e, [(''error'', PStr msg)]) # ys) = Some c'' \<and>
           all_text c = concat (map text_contribution xs) @ text_contribution e @
                        concat (map text_contribution ys) \<and>
           all_text c' = concat (map text_contribution xs) @ concat (map text_contribution ys) \<and>
           all_text c'' = all_text c' \<and>
           shapes_detected c'' = shapes_detected c' \<and> lines_detected c'' = lines_detected c' \<and>
           (fst e \<noteq> ''yolo'' \<longrightarrow>
              shapes_detected c' = shapes_detected c \<and> lines_detected c' = lines_detected c) \<and>
           (fst e = ''yolo'' \<longrightarrow>
              shapes_detected c' = PList [] \<and> lines_detected c' = PList [])"
proof -
  from assms(2) have t: "all_text c = concat (map text_contribution (xs @ e # ys))"
    by (rule combine_results_text)
  from assms(2) have "\<forall>a\<in>set (xs @ e # ys). combine_results [a] \<noteq> None"
    using combine_results_ok_iff[of "xs @ e # ys"] by simp
  then have "combine_results (xs @ ys) \<noteq> None"
    using combine_results_ok_iff[of "xs @ ys"] by simp
  then obtain c' where c': "combine_results (xs @ ys) = Some c'" by auto
  then have t': "all_text c' = concat (map text_contribution (xs @ ys))"
    by (rule combine_results_text)
  from assms(1) have d': "distinct (map fst (xs @ ys))" by auto
  from assms(1) have de: "distinct (map fst (xs @ (fst e, snd e) # ys))" by simp
  from failure_entry_same_content[OF de c', of msg] obtain c'' where
    c'': "combine_results (xs @ (fst e, [(''error'', PStr msg)]) # ys) = Some c''"
      "all_text c'' = all_text c'" "shapes_detected c'' = shapes_detected c'"
      "lines_detected c'' = lines_detected c'" by blast
  have v: "shapes_detected c' = shapes_detected c \<and> lines_detected c' = lines_detected c"
    if ne: "fst e \<noteq> ''yolo''"
  proof -
    from ne have m: "map_of (xs @ e # ys) ''yolo'' = map_of (xs @ ys) ''yolo''"
      by (cases e) (simp add: map_add_def split: option.splits)
    have "Some (shapes_detected c') = Some (shapes_detected c)"
      unfolding combine_results_visual(1)[OF assms] combine_results_visual(1)[OF d' c'] m ..
    moreover have "Some (lines_detected c') = Some (lines_detected c)"
      unfolding combine_results_visual(2)[OF assms] combine_results_visual(2)[OF d' c'] m ..
    ultimately show ?thesis by simp
  qed
  have y: "shapes_detected c' = PList [] \<and> lines_detected c' = PList []"
    if "fst e = ''yolo''"
  proof -
    from that assms(1) have "''yolo'' \<notin> fst ` set (xs @ ys)" by auto
    from combine_loop_no_yolo[OF this c'[unfolded combine_results_def]]
    show ?thesis by (simp add: empty_combined_def)
  qed
  from t t' c' c'' v y show ?thesis by simp
qed

theorem failure_isolated_witness:
  "distinct (map fst ([(''tesseract'', [(''extracted_text'', PStr ''DIM 150mm'')])] @
       (''trocr'', [(''text'', PStr ''ok'')]) #
       [(''yolo'', [(''shapes'', PDict [(''shapes'', PList [PStr ''circle''])])])])) \<and>
   (\<exists>c c' c''.
     combine_results [(''tesseract'', [(''extracted_text'', PStr ''DIM 150mm'')]),
       (''trocr'', [(''text'', PStr ''ok'')]),
       (''yolo'', [(''shapes'', PDict [(''shapes'', PList [PStr ''circle''])])])] = Some c \<and>
     combine_results [(''tesseract'', [(''extracted_text'', PStr ''DIM 150mm'')]),
       (''yolo'', [(''shapes'', PDict [(''shapes'', PList [PStr ''circle''])])])] = Some c' \<and>
     combine_results [(''tesseract'', [(''extracted_text'', PStr ''DIM 150mm'')]),
       (''trocr'', [(''error'', PStr ''timeout'')]),
       (''yolo'', [(''shapes'', PDict [(''shapes'', PList [PStr ''circle''])])])] = Some c'' \<and>
     all_text c = [text_item ''tesseract'' ''DIM 150mm'' ''printed'',
                   text_item ''trocr'' ''ok'' ''handwritten''] \<and>
     all_text c' = [text_item ''tesseract'' ''DIM 150mm'' ''printed''] \<and>
     all_text c'' = all_text c' \<and>
     shapes_detected c' = shapes_detected c \<and> shapes_detected c'' = shapes_detected c')"
proof -
  let ?t = "(''tesseract'', [(''extracted_text'', PStr ''DIM 150mm'')])"
  let ?y = "(''yolo'', [(''shapes'', PDict [(''shapes'', PList [PStr ''circle''])])])"
  let ?h = "(''trocr'', [(''text'', PStr ''ok'')])"
  have d: "distinct (map fst ([?t] @ ?h # [?y]))" by simp
  obtain c where c: "combine_results ([?t] @ ?h # [?y]) = Some c"
    by (simp add: combine_results_def empty_combined_def tesseract_branch_def trocr_branch_def
        yolo_branch_def append_text_def nested_or_old_def dict_get_def dict_has_def
        strip_def is_space_def)
  have tc: "text_contribution ?t = [text_item ''tesseract'' ''DIM 150mm'' ''printed'']"
    "text_contribution ?y = []"
    "text_contribution ?h = [text_item ''trocr'' ''ok'' ''handwritten'']"
    by (simp_all add: text_contribution_def combine_results_def empty_combined_def
        tesseract_branch_def trocr_branch_def
        yolo_branch_def append_text_def nested_or_old_def dict_get_def dict_has_def
        strip_def is_space_def)
  from failure_isolated[OF d c, of "''timeout''"] tc c d show ?thesis by auto
qed




text \<open>
  C5 (amended). Shapes and lines are not concatenated across sources. The combiner
  assigns them from the yolo entry alone: shapes_detected is the value under
  shapes.shapes of the yolo result, lines_detected the value under lines.lines, and
  each is the empty list when the input has no yolo entry. Shapes or lines that any
  other source carries are discarded.
\<close>

theorem shapes_from_yolo_only:
  assumes "distinct (map fst rs)" and "combine_results rs = Some c"
  shows "Some (shapes_detected c) =
           (case map_of rs ''yolo'' of None \<Rightarrow> Some (PList [])
            | Some r \<Rightarrow> nested_or_old r ''shapes'' (PList [])) \<and>
         Some (lines_detected c) =
           (case map_of rs ''yolo'' of None \<Rightarrow> Some (PList [])
            | Some r \<Rightarrow> nested_or_old r ''lines'' (PList [])) \<and>
         (\<forall>r d v. map_of rs ''yolo'' = Some r \<longrightarrow> map_of r ''shapes'' = Some (PDict d) \<longrightarrow>
            map_of d ''shapes'' = Some v \<longrightarrow> shapes_detected c = v) \<and>
         (\<forall>r d v. map_of rs ''yolo'' = Some r \<longrightarrow> map_of r ''lines'' = Some (PDict d) \<longrightarrow>
            map_of d ''lines'' = Some v \<longrightarrow> lines_detected c = v)"
proof -
  note s = combine_results_visual(1)[OF assms]
  note l = combine_results_visual(2)[OF assms]
  have "shapes_detected c = v"
    if "map_of rs ''yolo'' = Some r" "map_of r ''shapes'' = Some (PDict d)"
      "map_of d ''shapes'' = Some v" for r d v
    using s that by (simp add: nested_or_old_def dict_has_def)
  moreover have "lines_detected c = v"
    if "map_of rs ''yolo'' = Some r" "map_of r ''lines'' = Some (PDict d)"
      "map_of d ''lines'' = Some v" for r d v
    using l that by (simp add: nested_or_old_def dict_has_def)
  ultimately show ?thesis using s l by blast
qed

theorem shapes_from_yolo_only_witness:
  "distinct (map fst [(''google_vision'', [(''shapes'', PDict [(''shapes'', PList [PStr ''triangle''])])]),
       (''yolo'', [(''shapes'', PDict [(''total_shapes'', PInt 1),
                                       (''shapes'', PList [PStr ''circle''])])])]) \<and>
   (\<exists>c. combine_results
       [(''google_vision'', [(''shapes'', PDict [(''shapes'', PList [PStr ''triangle''])])]),
        (''yolo'', [(''shapes'', PDict [(''total_shapes'', PInt 1),
                                        (''shapes'', PList [PStr ''circle''])])])] = Some c \<and>
      shapes_detected c = PList [PStr ''circle''] \<and> lines_detected c = PList [])"
proof -
  let ?rs = "[(''google_vision'', [(''shapes'', PDict [(''shapes'', PList [PStr ''triangle''])])]),
       (''yolo'', [(''shapes'', PDict [(''total_shapes'', PInt 1),
                                       (''shapes'', PList [PStr ''circle''])])])]"
  have d: "distinct (map fst ?rs)" by simp
  obtain c where c: "combine_results ?rs = Some c"
    by (simp add: combine_results_def empty_combined_def google_vision_branch_def
        yolo_branch_def append_text_def nested_or_old_def dict_get_def dict_has_def)
  from shapes_from_yolo_only[OF d c] c d show ?thesis
    by (simp add: nested_or_old_def dict_has_def)
qed

theorem shapes_concatenated_counterexample:
  "combine_results
     [(''google_vision'', [(''shapes'', PDict [(''shapes'', PList [PStr ''triangle''])]),
                           (''lines'', PDict [(''lines'', PList [PStr ''edge''])])]),
      (''yolo'', [(''shapes'', PDict [(''total_shapes'', PInt 1),
                                      (''shapes'', PList [PStr ''circle''])]),
                  (''lines'', PDict [(''total_lines'', PInt 1),
                                     (''lines'', PList [PStr ''axis''])])])] =
   Some \<lparr>all_text = [], shapes_detected = PList [PStr ''circle''],
         lines_detected = PList [PStr ''axis''], confidence_scores = [],
         method_summary =
           [(''google_vision'', [(''detections'', PInt 0), (''type'', PStr ''mixed_text'')]),
            (''yolo'', [(''shapes'', PInt 1), (''lines'', PInt 1), (''objects'', PInt 0),
                        (''type'', PStr ''visual_elements'')])]\<rparr> \<and>
   PList [PStr ''circle''] \<noteq> PList [PStr ''triangle'', PStr ''circle'']"
  by (simp add: combine_results_def empty_combined_def google_vision_branch_def
      yolo_branch_def append_text_def nested_or_old_def dict_get_def dict_has_def)

text \<open>
  C8 (amended). Success is content-blind for a recognised, stored source. An entry of the
  combiner's input whose key is one of the four recognised method names and which adds
  no text still gets its method summary entry, and no item of the text list names it.
  The entry is the one the source gets when combined alone: for a blank tesseract text
  its detection count and type, for a blank trocr text \<^verbatim>\<open>text_found\<close> false. The entry
  carries no success flag; a result holding only an error message would get an entry of
  the same form, and it is the caller that keeps failed results out. In the AI OCR
  module a result counts as successful by its status alone, whatever its data. A Google
  Vision call that comes back without a text annotation is reported as an error, so the
  caller does not store it and it gets no entry; an entry with any other name gets no
  summary entry either.
\<close>

theorem success_is_content_blind:
  "(distinct (map fst rs) \<longrightarrow> combine_results rs = Some c \<longrightarrow> (m, r) \<in> set rs \<longrightarrow>
      m \<in> set known_methods \<longrightarrow> text_contribution (m, r) = [] \<longrightarrow>
        m \<in> set (map fst (method_summary c)) \<and>
        map_of (method_summary c) m = summary_of (m, r) \<and>
        (\<forall>item\<in>set (all_text c). map_of item ''method'' \<noteq> Some (PStr m))) \<and>
   (distinct (map fst rs) \<longrightarrow> combine_results rs = Some c \<longrightarrow> k \<notin> set known_methods \<longrightarrow>
      k \<notin> set (map fst (method_summary c))) \<and>
   (map_of r1 ''extracted_text'' = Some (PStr s1) \<longrightarrow> strip s1 = [] \<longrightarrow>
      text_contribution (''tesseract'', r1) = [] \<and>
      summary_of (''tesseract'', r1) =
        Some [(''detections'', dict_get r1 ''total_detections'' (PInt 0)),
              (''type'', PStr ''printed_text'')]) \<and>
   (map_of r2 ''text'' = Some (PStr s2) \<longrightarrow> strip s2 = [] \<longrightarrow>
      text_contribution (''trocr'', r2) = [] \<and>
      summary_of (''trocr'', r2) =
        Some [(''text_found'', PBool False), (''type'', PStr ''handwritten_text'')] \<and>
      text_contribution (''google_vision'', r2) = [] \<and>
      summary_of (''google_vision'', r2) =
        Some [(''detections'', dict_get r2 ''total_detections'' (PInt 0)),
              (''type'', PStr ''mixed_text'')]) \<and>
   summary_of (''tesseract'', [(''error'', PStr msg)]) =
     Some [(''detections'', PInt 0), (''type'', PStr ''printed_text'')] \<and>
   (is_success r' \<longrightarrow>
      successful_apis (xs @ (n, r') # ys) = Suc (successful_apis (xs @ ys)) \<and>
      successful_apis (xs @ (n, dict_set r' ''data'' v) # ys) = Suc (successful_apis (xs @ ys))) \<and>
   (\<not> py_truthy (dict_get first ''textAnnotations'' (PList [])) \<longrightarrow>
      analyze_with_google_vision True
        (Some (PDict [(''responses'', PList (PDict first # others))])) e = no_text_detected \<and>
      dict_has no_text_detected ''error'') \<and>
   (comprehensive_analysis env path save = Some (Analysed a) \<longrightarrow> use_google_vision env \<longrightarrow>
    gv_result env = no_text_detected \<longrightarrow>
      ''google_vision'' \<notin> set (methods_used a) \<and>
      ''google_vision'' \<notin> set (map fst (method_summary (combined_result a))))"
proof (intro conjI impI)
  assume d: "distinct (map fst rs)" and c: "combine_results rs = Some c"
    and mr: "(m, r) \<in> set rs" and kn: "m \<in> set known_methods"
    and tc: "text_contribution (m, r) = []"
  from combine_results_summary_keys[OF d c] mr kn
  show "m \<in> set (map fst (method_summary c))" by force
  from combine_results_entry[OF d c mr kn]
  show "map_of (method_summary c) m = summary_of (m, r)" .
  show "\<forall>item\<in>set (all_text c). map_of item ''method'' \<noteq> Some (PStr m)"
  proof
    fix item assume "item \<in> set (all_text c)"
    with combine_results_text[OF c] obtain k r' where kr: "(k, r') \<in> set rs"
      and i: "item \<in> set (text_contribution (k, r'))" by auto
    from text_contribution_method[OF i] have mk: "map_of item ''method'' = Some (PStr k)" .
    show "map_of item ''method'' \<noteq> Some (PStr m)"
    proof
      assume "map_of item ''method'' = Some (PStr m)"
      with mk have "k = m" by simp
      with d kr mr have "r' = r" by (metis eq_key_imp_eq_value)
      with i tc \<open>k = m\<close> show False by simp
    qed
  qed
next
  assume d: "distinct (map fst rs)" and c: "combine_results rs = Some c"
    and "k \<notin> set known_methods"
  with combine_results_summary_keys[OF d c]
  show "k \<notin> set (map fst (method_summary c))" by auto
next
  assume a: "map_of r1 ''extracted_text'' = Some (PStr s1)" "strip s1 = []"
  from blank_summaries(1)[OF a]
  show "text_contribution (''tesseract'', r1) = []"
    and "summary_of (''tesseract'', r1) =
        Some [(''detections'', dict_get r1 ''total_detections'' (PInt 0)),
              (''type'', PStr ''printed_text'')]" by simp_all
next
  assume a: "map_of r2 ''text'' = Some (PStr s2)" "strip s2 = []"
  from blank_summaries(2)[OF a]
  show "text_contribution (''trocr'', r2) = []"
    and "summary_of (''trocr'', r2) =
        Some [(''text_found'', PBool False), (''type'', PStr ''handwritten_text'')]"
    by simp_all
  from blank_summaries(3)[OF a]
  show "text_contribution (''google_vision'', r2) = []"
    and "summary_of (''google_vision'', r2) =
        Some [(''detections'', dict_get r2 ''total_detections'' (PInt 0)),
              (''type'', PStr ''mixed_text'')]" by simp_all
next
  show "summary_of (''tesseract'', [(''error'', PStr msg)]) =
     Some [(''detections'', PInt 0), (''type'', PStr ''printed_text'')]"
    by (simp add: summary_of_def combine_results_single tesseract_branch_def append_text_def
        empty_combined_def dict_get_def)
next
  assume s: "is_success r'"
  then show "successful_apis (xs @ (n, r') # ys) = Suc (successful_apis (xs @ ys))"
    by (simp add: successful_apis_def)
  from s have "is_success (dict_set r' ''data'' v)"
    by (simp add: is_success_def dict_get_def map_of_dict_set)
  then show "successful_apis (xs @ (n, dict_set r' ''data'' v) # ys) =
      Suc (successful_apis (xs @ ys))"
    by (simp add: successful_apis_def)
next
  assume "\<not> py_truthy (dict_get first ''textAnnotations'' (PList []))"
  then show "analyze_with_google_vision True
        (Some (PDict [(''responses'', PList (PDict first # others))])) e = no_text_detected"
    by (rule no_annotation_is_error)
  show "dict_has no_text_detected ''error''" by (simp add: no_text_detected_def dict_has_def)
next
  assume a: "comprehensive_analysis env path save = Some (Analysed a)"
    and u: "use_google_vision env" and g: "gv_result env = no_text_detected"
  from g have "dict_has (engine_result env ''google_vision'') ''error''"
    by (simp add: engine_result_def no_text_detected_def dict_has_def)
  with analysis_methods[OF a]
  show "''google_vision'' \<notin> set (methods_used a)"
    and "''google_vision'' \<notin> set (map fst (method_summary (combined_result a)))"
    by auto
qed

theorem success_is_content_blind_witness:
  "distinct (map fst [(''tesseract'', [(''extracted_text'', PStr ''  ''), (''total_detections'', PInt 0)]),
                      (''openai'', [(''status'', PStr ''success''), (''text'', PStr [])]),
                      (''trocr'', [(''text'', PStr ''M8'')])]) \<and>
   (''tesseract'', [(''extracted_text'', PStr ''  ''), (''total_detections'', PInt 0)]) \<in>
     set [(''tesseract'', [(''extracted_text'', PStr ''  ''), (''total_detections'', PInt 0)]),
          (''openai'', [(''status'', PStr ''success''), (''text'', PStr [])]),
          (''trocr'', [(''text'', PStr ''M8'')])] \<and>
   ''tesseract'' \<in> set known_methods \<and>
   ''openai'' \<notin> set known_methods \<and>
   text_contribution (''tesseract'', [(''extracted_text'', PStr ''  ''), (''total_detections'', PInt 0)]) = [] \<and>
   (\<exists>c. combine_results [(''tesseract'', [(''extracted_text'', PStr ''  ''), (''total_detections'', PInt 0)]),
                      (''openai'', [(''status'', PStr ''success''), (''text'', PStr [])]),
                      (''trocr'', [(''text'', PStr ''M8'')])] = Some c \<and>
        ''tesseract'' \<in> set (map fst (method_summary c)) \<and>
        map_of (method_summary c) ''tesseract'' =
          Some [(''detections'', PInt 0), (''type'', PStr ''printed_text'')] \<and>
        (\<forall>item\<in>set (all_text c). map_of item ''method'' \<noteq> Some (PStr ''tesseract'')) \<and>
        ''openai'' \<notin> set (map fst (method_summary c))) \<and>
   map_of [(''extracted_text'', PStr ''  ''), (''total_detections'', PInt 0)] ''extracted_text'' =
     Some (PStr ''  '') \<and>
   strip ''  '' = [] \<and>
   summary_of (''tesseract'', [(''extracted_text'', PStr ''  ''), (''total_detections'', PInt 0)]) =
     Some [(''detections'', PInt 0), (''type'', PStr ''printed_text'')] \<and>
   map_of [(''text'', PStr []), (''confidence'', PStr ''N/A''), (''method'', PStr ''TrOCR'')] ''text'' =
     Some (PStr []) \<and>
   strip [] = [] \<and>
   text_contribution (''trocr'', [(''text'', PStr []), (''confidence'', PStr ''N/A''),
      (''method'', PStr ''TrOCR'')]) = [] \<and>
   summary_of (''trocr'', [(''text'', PStr []), (''confidence'', PStr ''N/A''),
      (''method'', PStr ''TrOCR'')]) =
     Some [(''text_found'', PBool False), (''type'', PStr ''handwritten_text'')] \<and>
   is_success [(''status'', PStr ''success''), (''data'', PDict [(''extracted_text'', PStr [])])] \<and>
   successful_apis ([] @ (''tesseract'',
        [(''status'', PStr ''success''), (''data'', PDict [(''extracted_text'', PStr [])])]) #
        [(''trocr'', [(''status'', PStr ''error'')])]) =
     Suc (successful_apis ([] @ [(''trocr'', [(''status'', PStr ''error'')])])) \<and>
   \<not> py_truthy (dict_get [] ''textAnnotations'' (PList [])) \<and>
   analyze_with_google_vision True (Some (PDict [(''responses'', PList [PDict []])])) [] =
     [(''error'', PStr ''No text detected by Google Vision'')] \<and>
   (\<exists>a. comprehensive_analysis
          \<lparr>image_exists = True,
           tesseract_result = [(''extracted_text'', PStr ''M8''), (''total_detections'', PInt 1)],
           trocr_loaded = False, handwriting_result = [],
           yolo_loaded = False, symbol_result = [], use_google_vision = True,
           gv_result = [(''error'', PStr ''No text detected by Google Vision'')],
           writable = {''drawing_analysis_results.jsonpng''}\<rparr>
          ''drawing.png'' True = Some (Analysed a) \<and>
        ''google_vision'' \<notin> set (methods_used a) \<and>
        ''google_vision'' \<notin> set (map fst (method_summary (combined_result a))))"
proof -
  let ?r = "[(''extracted_text'', PStr ''  ''), (''total_detections'', PInt 0)]"
  let ?rs = "[(''tesseract'', ?r), (''openai'', [(''status'', PStr ''success''), (''text'', PStr [])]),
              (''trocr'', [(''text'', PStr ''M8'')])]"
  let ?r2 = "[(''text'', PStr []), (''confidence'', PStr ''N/A''), (''method'', PStr ''TrOCR'')]"
  let ?r' = "[(''status'', PStr ''success''), (''data'', PDict [(''extracted_text'', PStr [])])]"
  let ?env = "\<lparr>image_exists = True,
           tesseract_result = [(''extracted_text'', PStr ''M8''), (''total_detections'', PInt 1)],
           trocr_loaded = False, handwriting_result = [],
           yolo_loaded = False, symbol_result = [], use_google_vision = True,
           gv_result = [(''error'', PStr ''No text detected by Google Vision'')],
           writable = {''drawing_analysis_results.jsonpng''}\<rparr>"
  have d: "distinct (map fst ?rs)" by simp
  have mem: "(''tesseract'', ?r) \<in> set ?rs" by simp
  have kn: "''tesseract'' \<in> set known_methods" by (simp add: known_methods_def)
  have un: "''openai'' \<notin> set known_methods" by (simp add: known_methods_def)
  have st: "strip ''  '' = []" by (simp add: strip_def is_space_def)
  have st2: "strip [] = []" by (simp add: strip_def)
  have mo: "map_of ?r ''extracted_text'' = Some (PStr ''  '')" by simp
  have mo2: "map_of ?r2 ''text'' = Some (PStr [])" by simp
  have tc: "text_contribution (''tesseract'', ?r) = []"
    by (simp add: text_contribution_def combine_results_def tesseract_branch_def
        append_text_def st empty_combined_def)
  have su: "is_success ?r'" by (simp add: is_success_def dict_get_def)
  have nt: "\<not> py_truthy (dict_get [] ''textAnnotations'' (PList []))"
    by (simp add: dict_get_def)
  have gv: "gv_result ?env = no_text_detected" by (simp add: no_text_detected_def)
  have u: "use_google_vision ?env" by simp
  have dg: "dict_get ?r ''total_detections'' (PInt 0) = PInt 0" by (simp add: dict_get_def)
  obtain c where c: "combine_results ?rs = Some c"
    by (simp add: combine_results_def tesseract_branch_def trocr_branch_def append_text_def
        st strip_def is_space_def dict_get_def)
  obtain a where a: "comprehensive_analysis ?env ''drawing.png'' True = Some (Analysed a)"
    by (simp add: comprehensive_analysis_def stored_results_def store_result_def dict_has_def
        combine_results_def empty_combined_def tesseract_branch_def append_text_def dict_get_def
        strip_def is_space_def results_file_def replace_dots_def)
  from success_is_content_blind[of ?rs c "''tesseract''" ?r "''openai''" ?r "''  ''" ?r2 "[]" "[]" ?r' "[]"
      "''tesseract''" "[(''trocr'', [(''status'', PStr ''error'')])]" "PDict []" "[]" "[]" "[]"
      ?env "''drawing.png''" True a]
    d mem kn un st st2 mo mo2 tc su nt gv u c a
  have r: "''tesseract'' \<in> set (map fst (method_summary c))"
    "map_of (method_summary c) ''tesseract'' = summary_of (''tesseract'', ?r)"
    "\<forall>item\<in>set (all_text c). map_of item ''method'' \<noteq> Some (PStr ''tesseract'')"
    "summary_of (''tesseract'', ?r) =
        Some [(''detections'', dict_get ?r ''total_detections'' (PInt 0)),
              (''type'', PStr ''printed_text'')]"
    "text_contribution (''trocr'', ?r2) = []"
    "summary_of (''trocr'', ?r2) =
        Some [(''text_found'', PBool False), (''type'', PStr ''handwritten_text'')]"
    "successful_apis ([] @ (''tesseract'', ?r') # [(''trocr'', [(''status'', PStr ''error'')])]) =
       Suc (successful_apis ([] @ [(''trocr'', [(''status'', PStr ''error'')])]))"
    "analyze_with_google_vision True (Some (PDict [(''responses'', PList [PDict []])])) [] =
       no_text_detected"
    "''google_vision'' \<notin> set (methods_used a)"
    "''google_vision'' \<notin> set (map fst (method_summary (combined_result a)))"
    "''openai'' \<notin> set (map fst (method_summary c))"
    by blast+
  from r(2) r(4) dg have e1: "map_of (method_summary c) ''tesseract'' =
      Some [(''detections'', PInt 0), (''type'', PStr ''printed_text'')]" by simp
  from r(4) dg have e2: "summary_of (''tesseract'', ?r) =
      Some [(''detections'', PInt 0), (''type'', PStr ''printed_text'')]" by simp
  from r(8) have e3: "analyze_with_google_vision True
      (Some (PDict [(''responses'', PList [PDict []])])) [] =
      [(''error'', PStr ''No text detected by Google Vision'')]"
    by (simp add: no_text_detected_def)
  from c r(1) e1 r(3) r(11) have ex1: "\<exists>c. combine_results ?rs = Some c \<and>
        ''tesseract'' \<in> set (map fst (method_summary c)) \<and>
        map_of (method_summary c) ''tesseract'' =
          Some [(''detections'', PInt 0), (''type'', PStr ''printed_text'')] \<and>
        (\<forall>item\<in>set (all_text c). map_of item ''method'' \<noteq> Some (PStr ''tesseract'')) \<and>
        ''openai'' \<notin> set (map fst (method_summary c))"
    by blast
  from a r(9) r(10) have ex2: "\<exists>a. comprehensive_analysis ?env ''drawing.png'' True =
        Some (Analysed a) \<and>
        ''google_vision'' \<notin> set (methods_used a) \<and>
        ''google_vision'' \<notin> set (map fst (method_summary (combined_result a)))"
    by blast
  show ?thesis
    apply (intro conjI)
    apply (rule d mem kn un tc ex1 mo st e2 mo2 st2 r(5) r(6) su r(7) nt e3 ex2)+
    done
qed

theorem zero_text_source_without_entry:
  "analyze_with_google_vision True (Some (PDict [(''responses'', PList [PDict []])])) [] =
     [(''error'', PStr ''No text detected by Google Vision'')] \<and>
   comprehensive_analysis
      \<lparr>image_exists = True,
       tesseract_result = [(''extracted_text'', PStr ''M8''), (''total_detections'', PInt 1)],
       trocr_loaded = False, handwriting_result = [],
       yolo_loaded = False, symbol_result = [], use_google_vision = True,
       gv_result = [(''error'', PStr ''No text detected by Google Vision'')],
       writable = {''drawing_analysis_results.jsonpng''}\<rparr>
      ''drawing.png'' True =
     Some (Analysed
      \<lparr>methods_used = [''tesseract''],
       results = [(''tesseract'', [(''extracted_text'', PStr ''M8''), (''total_detections'', PInt 1)])],
       combined_result =
         \<lparr>all_text = [text_item ''tesseract'' ''M8'' ''printed''],
          shapes_detected = PList [], lines_detected = PList [], confidence_scores = [],
          method_summary =
            [(''tesseract'', [(''detections'', PInt 1), (''type'', PStr ''printed_text'')])]\<rparr>\<rparr>) \<and>
   combine_results [(''openai'', [(''status'', PStr ''success''), (''text'', PStr [])])] =
     Some \<lparr>all_text = [], shapes_detected = PList [], lines_detected = PList [],
           confidence_scores = [], method_summary = []\<rparr> \<and>
   combine_results [(''tesseract'', [(''error'', PStr ''File not found: drawing.png'')])] =
     Some \<lparr>all_text = [], shapes_detected = PList [], lines_detected = PList [],
           confidence_scores = [],
           method_summary =
             [(''tesseract'', [(''detections'', PInt 0), (''type'', PStr ''printed_text'')])]\<rparr> \<and>
   combine_results [(''tesseract'', process_engineering_drawing True ''drawing.png'' (Inr ([], [])))] =
     Some \<lparr>all_text = [], shapes_detected = PList [], lines_detected = PList [],
           confidence_scores = [],
           method_summary =
             [(''tesseract'', [(''detections'', PInt 0), (''type'', PStr ''printed_text'')])]\<rparr>"
  by (simp add: analyze_with_google_vision_def text_detection_def no_text_detected_def
      comprehensive_analysis_def stored_results_def store_result_def dict_has_def
      combine_results_def empty_combined_def tesseract_branch_def
      append_text_def dict_get_def strip_def is_space_def
      results_file_def replace_dots_def process_engineering_drawing_def)

text \<open>
  C2 (amended). The success rate of the AI OCR module is a percentage: 100 times the
  number of results with status success, divided by the number of results attempted.
  It lies between 0 and 100, is 0 for the empty dictionary (no division takes place),
  and is 0 exactly when no result succeeded.
\<close>

theorem success_rate_percentage:
  "(total_apis api_results > 0 \<longrightarrow>
      success_rate api_results =
        100 * real (successful_apis api_results) / real (total_apis api_results)) \<and>
   0 \<le> success_rate api_results \<and> success_rate api_results \<le> 100 \<and>
   success_rate [] = 0 \<and>
   (success_rate api_results = 0 \<longleftrightarrow> successful_apis api_results = 0)"
proof -
  have le: "real (successful_apis api_results) \<le> real (total_apis api_results)"
    using successful_le_total[of api_results] by simp
  have z: "successful_apis api_results = 0" if "total_apis api_results = 0"
    using successful_le_total[of api_results] that by simp
  have "success_rate api_results \<le> 100"
  proof (cases "total_apis api_results > 0")
    case True
    define q where "q = real (successful_apis api_results) / real (total_apis api_results)"
    from True le have "q \<le> 1" by (simp add: q_def)
    then have "q * 100 \<le> 100" by simp
    moreover from True have "success_rate api_results = q * 100"
      by (simp only: success_rate_def q_def if_True)
    ultimately show ?thesis by simp
  next
    case False
    then show ?thesis by (simp add: success_rate_def)
  qed
  moreover have "0 \<le> success_rate api_results" by (simp add: success_rate_def)
  moreover have "success_rate [] = 0" by (simp add: success_rate_def total_apis_def)
  moreover have "success_rate api_results = 0 \<longleftrightarrow> successful_apis api_results = 0"
    using z by (auto simp: success_rate_def)
  ultimately show ?thesis by (simp add: success_rate_def)
qed

theorem success_rate_percentage_witness:
  "total_apis [(''tesseract'', [(''status'', PStr ''success'')]),
               (''trocr'', [(''status'', PStr ''error''), (''error'', PStr ''TrOCR model not loaded'')])] > 0 \<and>
   success_rate [(''tesseract'', [(''status'', PStr ''success'')]),
               (''trocr'', [(''status'', PStr ''error''), (''error'', PStr ''TrOCR model not loaded'')])] = 50"
  using success_rate_percentage[of "[(''tesseract'', [(''status'', PStr ''success'')]),
               (''trocr'', [(''status'', PStr ''error''), (''error'', PStr ''TrOCR model not loaded'')])]"]
  by (simp add: total_apis_def successful_apis_def is_success_def dict_get_def)

theorem success_rate_unit_interval_counterexample:
  "success_rate [(''tesseract'', [(''status'', PStr ''success'')])] = 100 \<and>
   \<not> success_rate [(''tesseract'', [(''status'', PStr ''success'')])] \<le> 1 \<and>
   success_rate [(''tesseract'', [(''status'', PStr ''success'')])] \<noteq>
     real (successful_apis [(''tesseract'', [(''status'', PStr ''success'')])]) /
     real (total_apis [(''tesseract'', [(''status'', PStr ''success'')])])"
  by (simp add: success_rate_def total_apis_def successful_apis_def is_success_def dict_get_def)

text \<open>
  C6. Line orientation. A detected line is horizontal exactly when the absolute value of
  its angle is below 10 or above 170 degrees, vertical exactly when it lies strictly
  between 80 and 100 degrees, and diagonal in every other case, among them the
  boundary angles 10, 80, 100 and 170 of either sign. The angle is the two-argument
  arctangent of the endpoint differences, in degrees.
\<close>

theorem orientation_classified:
  "(classify_orientation a = Horizontal \<longleftrightarrow> \<bar>a\<bar> < 10 \<or> \<bar>a\<bar> > 170) \<and>
   (classify_orientation a = Vertical \<longleftrightarrow> 80 < \<bar>a\<bar> \<and> \<bar>a\<bar> < 100) \<and>
   (classify_orientation a = Diagonal \<longleftrightarrow>
      \<not> (\<bar>a\<bar> < 10 \<or> \<bar>a\<bar> > 170) \<and> \<not> (80 < \<bar>a\<bar> \<and> \<bar>a\<bar> < 100)) \<and>
   classify_orientation 10 = Diagonal \<and> classify_orientation 80 = Diagonal \<and>
   classify_orientation 100 = Diagonal \<and> classify_orientation 170 = Diagonal \<and>
   classify_orientation (- 10) = Diagonal \<and> classify_orientation (- 80) = Diagonal \<and>
   classify_orientation (- 100) = Diagonal \<and> classify_orientation (- 170) = Diagonal \<and>
   orientation (line_of l) = classify_orientation (angle (line_of l)) \<and>
   angle (line_of l) =
     arctan2 (real_of_int (snd (snd (snd l)) - fst (snd l)))
             (real_of_int (fst (snd (snd l)) - fst l)) * 180 / pi \<and>
   detect_lines (Some ls) = map line_of ls"
  by (cases l) (auto simp: classify_orientation_def Let_def)

theorem orientation_classified_witness:
  "orientation (line_of (0, 0, 5, 0)) = Horizontal \<and>
   orientation (line_of (5, 0, 0, 0)) = Horizontal \<and>
   orientation (line_of (0, 0, 0, 5)) = Vertical \<and>
   orientation (line_of (0, 0, 5, 5)) = Diagonal \<and>
   classify_orientation 10 = Diagonal"
proof -
  have a: "angle (line_of (0, 0, 5, 0)) = 0" "angle (line_of (5, 0, 0, 0)) = 180"
    "angle (line_of (0, 0, 0, 5)) = 90" "angle (line_of (0, 0, 5, 5)) = 45"
    by (simp_all add: arctan2_def arctan_one)
  from orientation_classified[of 0 "(0, 0, 5, 0)" "[]"]
    orientation_classified[of 180 "(5, 0, 0, 0)" "[]"]
    orientation_classified[of 90 "(0, 0, 0, 5)" "[]"]
    orientation_classified[of 45 "(0, 0, 5, 5)" "[]"]
  show ?thesis unfolding a by simp
qed

text \<open>
  C4 (amended). A successful source that reports a confidence contributes that value. A
  successful source that reports none contributes 0.8 when it reports a positive
  token count and 0.6 otherwise. The OCR confidence is the plain mean of these values
  over the successful sources, and 0 when no source succeeded; failed sources and the
  success rate do not enter it.
\<close>

theorem ocr_confidence_policy:
  "(length names = length reps \<longrightarrow>
      calculate_ocr_confidence [(''api_results'', PDict (zip names (map encode_result reps)))] =
        Some (mean (map policy_confidence (filter succeeded reps)))) \<and>
   (reported_confidence rep = Some x \<longrightarrow> policy_confidence rep = x) \<and>
   (reported_confidence rep = None \<longrightarrow> tokens rep = Some n \<longrightarrow> n > 0 \<longrightarrow>
      policy_confidence rep = 0.8) \<and>
   (reported_confidence rep = None \<longrightarrow> (tokens rep = None \<or> (\<exists>k. tokens rep = Some k \<and> k \<le> 0)) \<longrightarrow>
      policy_confidence rep = 0.6)"
  using ocr_confidence_encoded[of names reps]
  by (auto simp: policy_confidence_def)

theorem ocr_confidence_policy_witness:
  "length [''openai'', ''tesseract'', ''trocr''] =
     length [\<lparr>succeeded = True, reported_confidence = None, tokens = Some 850\<rparr>,
             \<lparr>succeeded = True, reported_confidence = None, tokens = None\<rparr>,
             \<lparr>succeeded = False, reported_confidence = None, tokens = None\<rparr>] \<and>
   calculate_ocr_confidence [(''api_results'', PDict
      [(''openai'', PDict [(''status'', PStr ''success''), (''tokens_used'', PInt 850)]),
       (''tesseract'', PDict [(''status'', PStr ''success'')]),
       (''trocr'', PDict [(''status'', PStr ''error'')])])] = Some (7 / 10) \<and>
   policy_confidence \<lparr>succeeded = True, reported_confidence = Some (9 / 10), tokens = None\<rparr> = 9 / 10 \<and>
   policy_confidence \<lparr>succeeded = True, reported_confidence = None, tokens = Some 850\<rparr> = 8 / 10 \<and>
   policy_confidence \<lparr>succeeded = True, reported_confidence = None, tokens = None\<rparr> = 6 / 10"
proof -
  let ?a = "\<lparr>succeeded = True, reported_confidence = None, tokens = Some 850\<rparr>"
  let ?b = "\<lparr>succeeded = True, reported_confidence = None, tokens = (None :: int option)\<rparr>"
  let ?c = "\<lparr>succeeded = False, reported_confidence = None, tokens = (None :: int option)\<rparr>"
  let ?d = "\<lparr>succeeded = True, reported_confidence = Some (9 / 10), tokens = (None :: int option)\<rparr>"
  have pa: "policy_confidence ?a = 8 / 10"
    using ocr_confidence_policy[of "[]" "[]" ?a 0 850] by simp
  have pb: "policy_confidence ?b = 6 / 10"
    using ocr_confidence_policy[of "[]" "[]" ?b 0 0] by simp
  have pd: "policy_confidence ?d = 9 / 10"
    using ocr_confidence_policy[of "[]" "[]" ?d "9 / 10" 0] by simp
  have "calculate_ocr_confidence [(''api_results'', PDict
      (zip [''openai'', ''tesseract'', ''trocr''] (map encode_result [?a, ?b, ?c])))] =
      Some (mean (map policy_confidence (filter succeeded [?a, ?b, ?c])))"
    using ocr_confidence_policy[of "[''openai'', ''tesseract'', ''trocr'']" "[?a, ?b, ?c]" ?a 0 850]
    by simp
  then have "calculate_ocr_confidence [(''api_results'', PDict
      [(''openai'', PDict [(''status'', PStr ''success''), (''tokens_used'', PInt 850)]),
       (''tesseract'', PDict [(''status'', PStr ''success'')]),
       (''trocr'', PDict [(''status'', PStr ''error'')])])] = Some (7 / 10)"
    by (simp add: encode_result_def pa pb mean_def)
  with pa pb pd show ?thesis by simp
qed

theorem ocr_confidence_default_counterexample:
  "calculate_ocr_confidence [(''api_results'', PDict
      [(''openai'', PDict [(''status'', PStr ''success''), (''tokens_used'', PInt 850)])])] =
     Some (8 / 10) \<and>
   (8 / 10 :: real) \<noteq> 6 / 10 \<and>
   calculate_ocr_confidence [(''api_results'', PDict
      [(''tesseract'', PDict [(''status'', PStr ''success''), (''confidence'', PFloat (9 / 10))]),
       (''trocr'', PDict [(''status'', PStr ''error'')])])] = Some (9 / 10)"
  by (simp add: calculate_ocr_confidence_def dict_get_def py_positive_def)

text \<open>
  C3. Total failure, evaluated on an unreadable image with no AI service configured and
  the handwriting model not loaded. The tesseract engine returns a dictionary holding
  only an error message, and the wrapper of the AI OCR module stores it as a success.
  So the success rate is 50, the OCR confidence 0.6 and the quality score 0.15, none of
  them 0; with the handwriting model loaded and failing the success rate is 100. The
  pipeline script on the same image returns empty text, shapes and lines.
\<close>

theorem engine_failure_counted_as_success:
  "process_engineering_drawing True ''scan.png'' (Inl ''unreadable image'') =
     [(''error'', PStr ''unreadable image'')] \<and>
   (let rs = gather_api_results []
        (analyze_with_tesseract
           (Inr (process_engineering_drawing True ''scan.png'' (Inl ''unreadable image''))) (1 / 4))
        (analyze_with_trocr False (Inr (recognize_handwriting_trocr False (Inl []))) 0)
    in rs =
         [(''tesseract'',
             [(''status'', PStr ''success''),
              (''api'', PStr ''tesseract_ocr''),
              (''processing_time'', PFloat (1 / 4)),
              (''data'', PDict [(''error'', PStr ''unreadable image'')]),
              (''method'', PStr ''traditional_ocr'')]),
          (''trocr'',
             [(''status'', PStr ''error''),
              (''api'', PStr ''trocr''),
              (''error'', PStr ''TrOCR model not loaded'')])] \<and>
       successful_apis rs = 1 \<and>
       success_rate rs = 50 \<and>
       calculate_ocr_confidence
         [(''api_results'', PDict (map (\<lambda>(k, r). (k, PDict r)) rs))] = Some (3 / 5) \<and>
       Option.bind (summarize_api_results rs)
         (\<lambda>summ. calculate_comprehensive_quality_score
            [(''ocr_analysis'', PDict [(''api_results_summary'', PDict summ)]),
             (''symbol_analysis'', PDict [(''performance'', PDict [])]),
             (''semantic_analysis'', PDict [(''performance'', PDict [])]),
             (''technical_data'', PDict [(''quality_metrics'',
                PDict [(''technical_content_richness'', PInt 0)])])]) = Some (3 / 20)) \<and>
   success_rate (gather_api_results []
        (analyze_with_tesseract
           (Inr (process_engineering_drawing True ''scan.png'' (Inl ''unreadable image''))) (1 / 4))
        (analyze_with_trocr True
           (Inr (recognize_handwriting_trocr True (Inl ''unreadable image''))) (1 / 4))) = 100 \<and>
   comprehensive_analysis
     \<lparr>image_exists = True,
      tesseract_result = process_engineering_drawing True ''scan.png'' (Inl ''unreadable image''),
      trocr_loaded = True,
      handwriting_result = recognize_handwriting_trocr True (Inl ''unreadable image''),
      yolo_loaded = True,
      symbol_result =
        [(''yolo'', PDict [(''error'', PStr ''Detection failed: unreadable image'')]),
         (''shapes'', PDict [(''error'', PStr ''Could not load image: scan.png'')]),
         (''lines'', PDict [(''error'', PStr ''Could not load image: scan.png'')]),
         (''annotated_image'', PNone)],
      use_google_vision = True,
      gv_result = analyze_with_google_vision True None ''unreadable image'',
      writable = {''scan_analysis_results.jsonpng''}\<rparr> ''scan.png'' True =
     Some (Analysed
       \<lparr>methods_used = [''yolo''],
        results =
          [(''yolo'',
            [(''yolo'', PDict [(''error'', PStr ''Detection failed: unreadable image'')]),
             (''shapes'', PDict [(''error'', PStr ''Could not load image: scan.png'')]),
             (''lines'', PDict [(''error'', PStr ''Could not load image: scan.png'')]),
             (''annotated_image'', PNone)])],
        combined_result =
          \<lparr>all_text = [], shapes_detected = PList [], lines_detected = PList [],
           confidence_scores = [],
           method_summary =
             [(''yolo'', [(''shapes'', PInt 0), (''lines'', PInt 0), (''objects'', PInt 0),
                          (''type'', PStr ''visual_elements'')])]\<rparr>\<rparr>)"
proof -
  have 1: "process_engineering_drawing True ''scan.png'' (Inl ''unreadable image'') =
     [(''error'', PStr ''unreadable image'')]"
    by (simp add: process_engineering_drawing_def)
  have 2: "gather_api_results []
        (analyze_with_tesseract (Inr [(''error'', PStr ''unreadable image'')]) (1 / 4))
        (analyze_with_trocr False (Inr (recognize_handwriting_trocr False (Inl []))) 0) =
     [(''tesseract'',
             [(''status'', PStr ''success''),
              (''api'', PStr ''tesseract_ocr''),
              (''processing_time'', PFloat (1 / 4)),
              (''data'', PDict [(''error'', PStr ''unreadable image'')]),
              (''method'', PStr ''traditional_ocr'')]),
          (''trocr'',
             [(''status'', PStr ''error''),
              (''api'', PStr ''trocr''),
              (''error'', PStr ''TrOCR model not loaded'')])]"
    by (simp add: gather_api_results_def analyze_with_tesseract_def analyze_with_trocr_def)
  have 3: "gather_api_results []
        (analyze_with_tesseract (Inr [(''error'', PStr ''unreadable image'')]) (1 / 4))
        (analyze_with_trocr True
           (Inr (recognize_handwriting_trocr True (Inl ''unreadable image''))) (1 / 4)) =
     [(''tesseract'',
             [(''status'', PStr ''success''),
              (''api'', PStr ''tesseract_ocr''),
              (''processing_time'', PFloat (1 / 4)),
              (''data'', PDict [(''error'', PStr ''unreadable image'')]),
              (''method'', PStr ''traditional_ocr'')]),
          (''trocr'',
             [(''status'', PStr ''success''),
              (''api'', PStr ''trocr''),
              (''processing_time'', PFloat (1 / 4)),
              (''data'', PDict [(''error'', PStr ''TrOCR processing failed: unreadable image'')]),
              (''method'', PStr ''handwriting_recognition'')])]"
    by (simp add: gather_api_results_def analyze_with_tesseract_def analyze_with_trocr_def
        recognize_handwriting_trocr_def)
  have 4: "successful_apis [(''tesseract'',
             [(''status'', PStr ''success''),
              (''api'', PStr ''tesseract_ocr''),
              (''processing_time'', PFloat (1 / 4)),
              (''data'', PDict [(''error'', PStr ''unreadable image'')]),
              (''method'', PStr ''traditional_ocr'')]),
          (''trocr'',
             [(''status'', PStr ''error''),
              (''api'', PStr ''trocr''),
              (''error'', PStr ''TrOCR model not loaded'')])] = 1"
    by (simp add: successful_apis_def is_success_def dict_get_def)
  have 5: "summarize_api_results [(''tesseract'',
             [(''status'', PStr ''success''),
              (''api'', PStr ''tesseract_ocr''),
              (''processing_time'', PFloat (1 / 4)),
              (''data'', PDict [(''error'', PStr ''unreadable image'')]),
              (''method'', PStr ''traditional_ocr'')]),
          (''trocr'',
             [(''status'', PStr ''error''),
              (''api'', PStr ''trocr''),
              (''error'', PStr ''TrOCR model not loaded'')])] =
      Some [(''total_apis_used'', PInt 2),
        (''successful_apis'', PInt 1),
        (''failed_apis'', PInt 1),
        (''total_tokens_used'', PInt 0),
        (''total_processing_time'', PFloat (1 / 4)),
        (''api_performance'', PDict
           [(''tesseract'', PDict [(''status'', PStr ''success''),
               (''processing_time'', PFloat (1 / 4)), (''tokens_used'', PInt 0)]),
            (''trocr'', PDict [(''status'', PStr ''failed''),
               (''error'', PStr ''TrOCR model not loaded'')])])]"
    by (simp add: summarize_api_results_def count_up_def set_performance_def dict_get_def)
  have 6: "comprehensive_analysis
     \<lparr>image_exists = True,
      tesseract_result = [(''error'', PStr ''unreadable image'')],
      trocr_loaded = True,
      handwriting_result = recognize_handwriting_trocr True (Inl ''unreadable image''),
      yolo_loaded = True,
      symbol_result =
        [(''yolo'', PDict [(''error'', PStr ''Detection failed: unreadable image'')]),
         (''shapes'', PDict [(''error'', PStr ''Could not load image: scan.png'')]),
         (''lines'', PDict [(''error'', PStr ''Could not load image: scan.png'')]),
         (''annotated_image'', PNone)],
      use_google_vision = True,
      gv_result = analyze_with_google_vision True None ''unreadable image'',
      writable = {''scan_analysis_results.jsonpng''}\<rparr> ''scan.png'' True =
     Some (Analysed
       \<lparr>methods_used = [''yolo''],
        results =
          [(''yolo'',
            [(''yolo'', PDict [(''error'', PStr ''Detection failed: unreadable image'')]),
             (''shapes'', PDict [(''error'', PStr ''Could not load image: scan.png'')]),
             (''lines'', PDict [(''error'', PStr ''Could not load image: scan.png'')]),
             (''annotated_image'', PNone)])],
        combined_result =
          \<lparr>all_text = [], shapes_detected = PList [], lines_detected = PList [],
           confidence_scores = [],
           method_summary =
             [(''yolo'', [(''shapes'', PInt 0), (''lines'', PInt 0), (''objects'', PInt 0),
                          (''type'', PStr ''visual_elements'')])]\<rparr>\<rparr>)"
    by (simp add: comprehensive_analysis_def stored_results_def store_result_def dict_has_def
        recognize_handwriting_trocr_def analyze_with_google_vision_def yolo_counts_def
        combine_results_def empty_combined_def yolo_branch_def nested_or_old_def dict_get_def
        results_file_def replace_dots_def)
  show ?thesis
    unfolding 1 2 3 Let_def
    apply (intro conjI)
           apply (rule refl)
          apply (rule refl)
         apply (rule 4)
        apply (simp add: success_rate_def total_apis_def 4)
       apply (simp add: calculate_ocr_confidence_def dict_get_def py_positive_def)
      apply (simp add: 5 calculate_comprehensive_quality_score_def ocr_quality_def
        symbol_quality_def semantic_quality_def richness_quality_def get_nested_def
        dict_get_def py_positive_def py_div_def)
     apply (simp add: success_rate_def total_apis_def successful_apis_def is_success_def
        dict_get_def)
    apply (rule 6)
    done
qed

end
